theory Spec2Isabelle
  imports Main "HOL-Library.Sublist"
begin

section \<open>Data model\<close>

text \<open>
  The step executors \<open>SolanaStepExecutor.executeStep\<close> and
  \<open>MultichainExecutionManager.execute\<close> drive one step of a transfer through its
  phases. Both mutate the step's execution record through a status manager and call
  external collaborators (balance check, quoting API, wallet, chain RPC). The embedding
  passes the step explicitly, returns it updated, and records every collaborator call
  and every status update of the executor in a trace.
\<close>

datatype Status = STARTED | ACTION_REQUIRED | PENDING | DONE | FAILED

text \<open>
  Processes are keyed by \<open>type\<close> in the Solana executor (\<open>SWAP\<close>, \<open>CROSS_CHAIN\<close>,
  \<open>RECEIVING_CHAIN\<close>) and by \<open>id\<close> in the multichain executor (\<open>crossProcess\<close>,
  \<open>waitForTxProcess\<close>); one key type serves both.
\<close>

datatype ProcessType = SWAP | CROSS_CHAIN | RECEIVING_CHAIN | crossProcess | waitForTxProcess

datatype ErrorCode =
  TransactionUnprepared | TransactionFailed | InsufficientFunds | TRANSACTION_REPLACED
  | OtherCode string

text \<open>
  A thrown JavaScript value: an error object with its \<open>code\<close>, \<open>message\<close>,
  \<open>htmlMessage\<close> and \<open>replacement\<close> (the hash of the replacement transaction)
  properties, or a thrown string.
\<close>

datatype exn =
  Exn "ErrorCode option" string "string option" "string option"
  | ThrownString string

fun exnCode :: "exn \<Rightarrow> ErrorCode option" where
  "exnCode (Exn c m h r) = c"
| "exnCode (ThrownString s) = None"

fun exnMessage :: "exn \<Rightarrow> string option" where
  "exnMessage (Exn c m h r) = Some m"
| "exnMessage (ThrownString s) = None"

fun exnHtmlMessage :: "exn \<Rightarrow> string option" where
  "exnHtmlMessage (Exn c m h r) = h"
| "exnHtmlMessage (ThrownString s) = None"

fun exnReplacement :: "exn \<Rightarrow> string option" where
  "exnReplacement (Exn c m h r) = r"
| "exnReplacement (ThrownString s) = None"

definition TransactionError :: "ErrorCode \<Rightarrow> string \<Rightarrow> exn" where
  "TransactionError c m = Exn (Some c) m None None"

definition Error :: "string \<Rightarrow> exn" where
  "Error m = Exn None m None None"

definition TypeError :: "string \<Rightarrow> exn" where
  "TypeError m = Exn None m None None"

record ErrorInfo =
  code :: "ErrorCode option"
  message :: "string option"
  htmlMessage :: "string option"

record Process =
  ptype :: ProcessType
  status :: Status
  txHash :: "string option"
  txLink :: "string option"
  substatus :: "string option"
  substatusMessage :: "string option"
  error :: "ErrorInfo option"
  pmessage :: "string option"
  errorMessage :: "string option"
  htmlErrorMessage :: "string option"
  errorCode :: "ErrorCode option"

record Execution =
  estatus :: Status
  process :: "Process list"
  fromAmount :: "string option"
  toAmount :: "string option"
  toToken :: "string option"
  gasAmount :: "string option"
  gasAmountUSD :: "string option"
  gasPrice :: "string option"
  gasToken :: "string option"
  gasUsed :: "string option"

record Action =
  fromChainId :: int
  toChainId :: int
  fromTokenAddress :: string
  toTokenAddress :: string
  actionFromAmount :: string

record Estimate =
  approvalAddress :: string
  estimateToAmount :: string

record TransactionRequest =
  data :: "string option"
  txTo :: "string option"
  txValue :: "string option"

record Step =
  action :: Action
  estimate :: Estimate
  transactionRequest :: "TransactionRequest option"
  execution :: "Execution option"

record Chain =
  chainId :: int
  blockExplorerUrl :: string

record TransactionInfo =
  tiTxHash :: "string option"
  tiAmount :: "string option"
  tiToken :: "string option"
  tiGasAmount :: "string option"
  tiGasAmountUSD :: "string option"
  tiGasPrice :: "string option"
  tiGasToken :: "string option"
  tiGasUsed :: "string option"

record StatusResponse =
  sending :: TransactionInfo
  receiving :: "TransactionInfo option"
  srStatus :: string
  srSubstatus :: "string option"
  srSubstatusMessage :: "string option"

text \<open>JavaScript truthiness of an optional string: \<open>undefined\<close> and \<open>''\<close> are falsy.\<close>

definition truthy :: "string option \<Rightarrow> bool" where
  "truthy x = (case x of None \<Rightarrow> False | Some s \<Rightarrow> s \<noteq> [])"

text \<open>Interpolation of an optional string in a template literal.\<close>

definition interpolate :: "string option \<Rightarrow> string" where
  "interpolate x = (case x of None \<Rightarrow> ''undefined'' | Some s \<Rightarrow> s)"

text \<open>\<open>a || b\<close> on optional strings.\<close>

definition orElse :: "string option \<Rightarrow> string option \<Rightarrow> string option" where
  "orElse a b = (if truthy a then a else b)"

section \<open>Process ledger (status manager)\<close>

text \<open>
  Modelled from the spec: the status manager (\<open>statusManager\<close>, its source is not part
  of the two files) as the Process Ledger of the specification, section 4.1:
  \<open>initExecutionObject\<close> creates the execution record if absent and returns the
  existing one unchanged otherwise; \<open>findOrCreateProcess\<close> returns the existing
  Process of the key or creates one with the initial status (default \<open>STARTED\<close>);
  \<open>updateProcess\<close> sets the status and merges the patch into the Process, in place;
  \<open>updateExecution\<close> sets the overall status and merges the summary fields. A patch
  is a function on the Process (on the Execution) that writes the patched fields.
\<close>

definition emptyExecution :: Execution where
  "emptyExecution =
     \<lparr>estatus = PENDING, process = [], fromAmount = None, toAmount = None, toToken = None,
      gasAmount = None, gasAmountUSD = None, gasPrice = None, gasToken = None,
      gasUsed = None\<rparr>"

definition initExecutionObject :: "Step \<Rightarrow> Execution" where
  "initExecutionObject step =
     (case execution step of None \<Rightarrow> emptyExecution | Some e \<Rightarrow> e)"

definition newProcess :: "ProcessType \<Rightarrow> Status \<Rightarrow> Process" where
  "newProcess t s =
     \<lparr>ptype = t, status = s, txHash = None, txLink = None, substatus = None,
      substatusMessage = None, error = None, pmessage = None, errorMessage = None,
      htmlErrorMessage = None, errorCode = None\<rparr>"

fun findProcess :: "ProcessType \<Rightarrow> Process list \<Rightarrow> Process option" where
  "findProcess t [] = None"
| "findProcess t (p # ps) = (if ptype p = t then Some p else findProcess t ps)"

fun patchProcess :: "ProcessType \<Rightarrow> (Process \<Rightarrow> Process) \<Rightarrow> Process list \<Rightarrow> Process list" where
  "patchProcess t f [] = []"
| "patchProcess t f (p # ps) = (if ptype p = t then f p # ps else p # patchProcess t f ps)"

definition processes :: "Step \<Rightarrow> Process list" where
  "processes step = (case execution step of None \<Rightarrow> [] | Some e \<Rightarrow> process e)"

definition findOrInsert :: "Step \<Rightarrow> Process \<Rightarrow> Process \<times> Step" where
  "findOrInsert step new =
     (case findProcess (ptype new) (processes step) of
        Some p \<Rightarrow> (p, step)
      | None \<Rightarrow>
          (new,
           step\<lparr>execution :=
             map_option (\<lambda>e. e\<lparr>process := process e @ [new]\<rparr>) (execution step)\<rparr>))"

definition findOrCreateProcess :: "Step \<Rightarrow> ProcessType \<Rightarrow> Status \<Rightarrow> Process \<times> Step" where
  "findOrCreateProcess step t s = findOrInsert step (newProcess t s)"

text \<open>
  The multichain executor calls \<open>findOrCreateProcess(id, step, message)\<close>: the new
  Process carries the message and the default initial status.
\<close>

definition findOrCreateProcessMsg :: "Step \<Rightarrow> ProcessType \<Rightarrow> string \<Rightarrow> Process \<times> Step" where
  "findOrCreateProcessMsg step t m =
     findOrInsert step ((newProcess t STARTED)\<lparr>pmessage := Some m\<rparr>)"

definition updateProcess ::
  "Step \<Rightarrow> ProcessType \<Rightarrow> Status \<Rightarrow> (Process \<Rightarrow> Process) \<Rightarrow> Process \<times> Step" where
  "updateProcess step t s patch =
     (case findProcess t (processes step) of
        None \<Rightarrow> (patch (newProcess t s), step)
      | Some p \<Rightarrow>
          (patch (p\<lparr>status := s\<rparr>),
           step\<lparr>execution :=
             map_option
               (\<lambda>e. e\<lparr>process := patchProcess t (\<lambda>q. patch (q\<lparr>status := s\<rparr>)) (process e)\<rparr>)
               (execution step)\<rparr>))"

definition updateExecution :: "Step \<Rightarrow> Status \<Rightarrow> (Execution \<Rightarrow> Execution) \<Rightarrow> Step" where
  "updateExecution step s patch =
     step\<lparr>execution := map_option (\<lambda>e. patch (e\<lparr>estatus := s\<rparr>)) (execution step)\<rparr>"

section \<open>Trace of an invocation\<close>

datatype Event =
  EvCheckBalance
  | EvGetStepTransaction
  | EvStepComparison
  | EvUpdateTransactionRequestHook
  | EvSendTransaction "string option"
  | EvConfirmTransaction string
  | EvWaitForReceivingTransaction string ProcessType
  | EvUpdateProcess ProcessType Status
  | EvUpdateExecution Status
  | EvCheckAllowance
  | EvPersonalizeStep
  | EvGetTransaction string
  | EvTxWait string
  | EvWaitForDestinationChainReceipt "string option"
  | EvGetAddress
  | EvParseReceipt

text \<open>
  How a block of the executor ends: an exception is raised, the executor returns
  early, or control falls through to the next statement with a value.
\<close>

datatype 'a Flow = Throw exn | Return | Go 'a

text \<open>How an invocation ends: the promise resolves or rejects.\<close>

datatype Result = Resolved | Rejected exn

section \<open>The Solana step executor\<close>

text \<open>
  The collaborators of \<open>SolanaStepExecutor.executeStep\<close>. Each is called at most
  once in an invocation, so each is given by its outcome there: \<open>Inl e\<close> (or
  \<open>Some e\<close>) when the call rejects with \<open>e\<close>. The error classifier \<open>parseError\<close>
  does not throw (specification, section 4.3); the status manager is passed to
  \<open>stepComparison\<close> and \<open>waitForReceivingTransaction\<close>, which are taken by their
  result only (section 4.4). \<open>getChainById\<close> gives the chains that the two lookups
  of lines 43 and 44 resolve to: \<open>executeStep\<close> below is the invocation from the
  point where both lookups have resolved, and \<open>executeStepInvocation\<close> after it the
  invocation with the lookups, which may reject.
\<close>

datatype JsProp = Absent | Undefined | Str string

record SolanaEnv =
  allowUserInteraction :: bool
  getChainById :: "int \<Rightarrow> Chain"
  getSolanaConnection :: "exn option"
  publicKey :: "string option"
  checkBalance :: "exn option"
  getStepTransaction :: "exn + Step"
  stepComparison :: "exn + Step"
  updateTransactionRequestHook :: "(exn + JsProp) option"
  deserialize :: "exn option"
  sendTransaction :: "exn + string"
  confirmTransaction :: "exn + string option"
  waitForReceivingTransaction :: "exn + StatusResponse"
  parseError :: "exn \<Rightarrow> exn"
  getTransactionFailedMessage :: "string option \<Rightarrow> exn + string option"
  getSubstatusMessage :: "string \<Rightarrow> string option \<Rightarrow> string option"

definition unprepared :: exn where
  "unprepared = TransactionError TransactionUnprepared ''Unable to prepare transaction.''"

text \<open>\<open>!step.transactionRequest?.data\<close> is false: the step has a payload.\<close>

definition hasPayload :: "Step \<Rightarrow> bool" where
  "hasPayload step =
     (case transactionRequest step of None \<Rightarrow> False | Some r \<Rightarrow> truthy (data r))"

definition payload :: "Step \<Rightarrow> string option" where
  "payload step = (case transactionRequest step of None \<Rightarrow> None | Some r \<Rightarrow> data r)"

text \<open>
  Lines 72 to 85: a step with no transaction request is re-quoted and compared; the
  compared step replaces the step and keeps the execution record of the step it
  replaces.
\<close>

definition reconcile ::
  "SolanaEnv \<Rightarrow> Step \<Rightarrow> Event list \<Rightarrow> (exn + unit) \<times> Step \<times> Event list" where
  "reconcile env step tr =
     (case transactionRequest step of
        Some r \<Rightarrow> (Inr (), step, tr)
      | None \<Rightarrow>
          (case getStepTransaction env of
             Inl e \<Rightarrow> (Inl e, step, tr @ [EvGetStepTransaction])
           | Inr updatedStep \<Rightarrow>
               (case stepComparison env of
                  Inl e \<Rightarrow> (Inl e, step, tr @ [EvGetStepTransaction, EvStepComparison])
                | Inr comparedStep \<Rightarrow>
                    (Inr (), comparedStep\<lparr>execution := execution step\<rparr>,
                     tr @ [EvGetStepTransaction, EvStepComparison]))))"

text \<open>
  The object spread \<open>{...transactionRequest, ...customizedTransactionRequest}\<close>: a
  \<open>data\<close> property of the hook's result replaces the payload, also when its value is
  \<open>undefined\<close>; a result with no such property leaves the payload as it was.
\<close>

definition mergeData :: "string option \<Rightarrow> JsProp \<Rightarrow> string option" where
  "mergeData d r = (case r of Absent \<Rightarrow> d | Undefined \<Rightarrow> None | Str s \<Rightarrow> Some s)"

text \<open>Lines 104 to 150: the customization hook, the broadcast, status \<open>PENDING\<close>.\<close>

definition customizeAndSend ::
  "SolanaEnv \<Rightarrow> Chain \<Rightarrow> Process \<Rightarrow> Step \<Rightarrow> Event list
     \<Rightarrow> (Process \<times> string) Flow \<times> Step \<times> Event list" where
  "customizeAndSend env fromChain proc step tr =
     (case updateTransactionRequestHook env of
        Some (Inl e) \<Rightarrow> (Throw e, step, tr @ [EvUpdateTransactionRequestHook])
      | hook \<Rightarrow>
          (let d = (case hook of Some (Inr r) \<Rightarrow> mergeData (payload step) r
                               | _ \<Rightarrow> payload step);
               tr1 = (case hook of None \<Rightarrow> tr | Some _ \<Rightarrow> tr @ [EvUpdateTransactionRequestHook])
           in if \<not> truthy d then (Throw unprepared, step, tr1)
              else
                (case deserialize env of
                   Some e \<Rightarrow> (Throw e, step, tr1)
                 | None \<Rightarrow>
                     (case sendTransaction env of
                        Inl e \<Rightarrow> (Throw e, step, tr1 @ [EvSendTransaction d])
                      | Inr h \<Rightarrow>
                          (let (proc', step') =
                                 updateProcess step (ptype proc) PENDING
                                   (\<lambda>p. p\<lparr>txHash := Some h,
                                          txLink := Some (blockExplorerUrl fromChain @ ''tx/'' @ h)\<rparr>)
                           in (Go (proc', h), step',
                               tr1 @ [EvSendTransaction d, EvUpdateProcess (ptype proc) PENDING]))))))"

text \<open>
  Lines 62 to 150: status \<open>STARTED\<close>, the balance check, reconciliation, the
  payload check, status \<open>ACTION_REQUIRED\<close>, the gate on \<open>allowUserInteraction\<close>.
\<close>

definition newTransaction ::
  "SolanaEnv \<Rightarrow> Chain \<Rightarrow> Process \<Rightarrow> Step \<Rightarrow> Event list
     \<Rightarrow> (Process \<times> string) Flow \<times> Step \<times> Event list" where
  "newTransaction env fromChain proc step tr =
     (let (proc1, step1) = updateProcess step (ptype proc) STARTED id;
          tr1 = tr @ [EvUpdateProcess (ptype proc) STARTED]
      in case publicKey env of
           None \<Rightarrow> (Throw (TypeError ''publicKey is null''), step1, tr1)
         | Some owner \<Rightarrow>
             (case checkBalance env of
                Some e \<Rightarrow> (Throw e, step1, tr1 @ [EvCheckBalance])
              | None \<Rightarrow>
                  (case reconcile env step1 (tr1 @ [EvCheckBalance]) of
                     (Inl e, step2, tr2) \<Rightarrow> (Throw e, step2, tr2)
                   | (Inr u, step2, tr2) \<Rightarrow>
                       if \<not> hasPayload step2 then (Throw unprepared, step2, tr2)
                       else
                         (let (proc3, step3) =
                                updateProcess step2 (ptype proc1) ACTION_REQUIRED id;
                              tr3 = tr2 @ [EvUpdateProcess (ptype proc1) ACTION_REQUIRED]
                          in if \<not> allowUserInteraction env then (Return, step3, tr3)
                             else customizeAndSend env fromChain proc3 step3 tr3))))"

text \<open>Lines 153 to 169: confirmation of the transaction on the source chain.\<close>

definition confirm ::
  "SolanaEnv \<Rightarrow> bool \<Rightarrow> Process \<Rightarrow> string \<Rightarrow> Step \<Rightarrow> Event list
     \<Rightarrow> Process Flow \<times> Step \<times> Event list" where
  "confirm env isBridgeExecution proc h step tr =
     (case confirmTransaction env of
        Inl e \<Rightarrow> (Throw e, step, tr @ [EvConfirmTransaction h])
      | Inr err \<Rightarrow>
          if truthy err
          then (Throw (TransactionError TransactionFailed
                         (''Transaction failed: '' @ interpolate err)),
                step, tr @ [EvConfirmTransaction h])
          else if isBridgeExecution
          then (let (proc', step') = updateProcess step (ptype proc) DONE id
                in (Go proc', step',
                    tr @ [EvConfirmTransaction h, EvUpdateProcess (ptype proc) DONE]))
          else (Go proc, step, tr @ [EvConfirmTransaction h]))"

text \<open>Lines 57 to 169: the body of the first \<open>try\<close>.\<close>

definition sendTry ::
  "SolanaEnv \<Rightarrow> Chain \<Rightarrow> bool \<Rightarrow> Process \<Rightarrow> Step \<Rightarrow> Event list
     \<Rightarrow> Process Flow \<times> Step \<times> Event list" where
  "sendTry env fromChain isBridgeExecution proc step tr =
     (case getSolanaConnection env of
        Some e \<Rightarrow> (Throw e, step, tr)
      | None \<Rightarrow>
          if truthy (txHash proc)
          then confirm env isBridgeExecution proc (interpolate (txHash proc)) step tr
          else
            (case newTransaction env fromChain proc step tr of
               (Throw e, step', tr') \<Rightarrow> (Throw e, step', tr')
             | (Return, step', tr') \<Rightarrow> (Return, step', tr')
             | (Go (proc', h), step', tr') \<Rightarrow>
                 confirm env isBridgeExecution proc' h step' tr'))"

text \<open>Lines 55 to 187: the send phase with its \<open>catch\<close>.\<close>

definition sendPhase ::
  "SolanaEnv \<Rightarrow> Chain \<Rightarrow> bool \<Rightarrow> Process \<Rightarrow> Step \<Rightarrow> Event list
     \<Rightarrow> Process Flow \<times> Step \<times> Event list" where
  "sendPhase env fromChain isBridgeExecution proc step tr =
     (if status proc \<noteq> DONE
      then
        (case sendTry env fromChain isBridgeExecution proc step tr of
           (Throw e, step', tr') \<Rightarrow>
             (let err = parseError env e;
                  (proc', step1) =
                    updateProcess step' (ptype proc) FAILED
                      (\<lambda>p. p\<lparr>error := Some \<lparr>code = exnCode err, message = exnMessage err,
                                             htmlMessage = exnHtmlMessage err\<rparr>\<rparr>);
                  step2 = updateExecution step1 FAILED id
              in (Throw err, step2,
                  tr' @ [EvUpdateProcess (ptype proc) FAILED, EvUpdateExecution FAILED]))
         | r \<Rightarrow> r)
      else (Go proc, step, tr))"

text \<open>
  Lines 232 to 248: the \<open>catch\<close> of the receiving phase. It awaits
  \<open>getTransactionFailedMessage\<close> before it records anything: when that call rejects,
  the rejection leaves the \<open>catch\<close> and nothing is recorded.
\<close>

definition receivingFailed ::
  "SolanaEnv \<Rightarrow> exn \<Rightarrow> Process \<Rightarrow> Step \<Rightarrow> Event list \<Rightarrow> Result \<times> Step \<times> Event list" where
  "receivingFailed env e proc step tr =
     (case getTransactionFailedMessage env (txLink proc) of
        Inl e' \<Rightarrow> (Rejected e', step, tr)
      | Inr html \<Rightarrow>
          (let (proc', step1) =
                 updateProcess step (ptype proc) FAILED
                   (\<lambda>p. p\<lparr>error := Some \<lparr>code = Some TransactionFailed,
                                          message = Some ''Failed while waiting for receiving chain.'',
                                          htmlMessage = html\<rparr>\<rparr>);
               step2 = updateExecution step1 FAILED id
           in (Rejected e, step2,
               tr @ [EvUpdateProcess (ptype proc) FAILED, EvUpdateExecution FAILED])))"

text \<open>Lines 189 to 251: the wait for the receiving chain.\<close>

definition receivingPhase ::
  "SolanaEnv \<Rightarrow> Chain \<Rightarrow> bool \<Rightarrow> Process \<Rightarrow> Step \<Rightarrow> Event list
     \<Rightarrow> Result \<times> Step \<times> Event list" where
  "receivingPhase env toChain isBridgeExecution proc0 step0 tr =
     (let processTxHash = txHash proc0;
          (proc, step) =
            (if isBridgeExecution then findOrCreateProcess step0 RECEIVING_CHAIN PENDING
             else (proc0, step0))
      in if \<not> truthy processTxHash
         then receivingFailed env (Error ''Transaction hash is undefined.'') proc step tr
         else
           (let tr1 = tr @ [EvWaitForReceivingTransaction (interpolate processTxHash) (ptype proc)]
            in case waitForReceivingTransaction env of
                 Inl e \<Rightarrow> receivingFailed env e proc step tr1
               | Inr statusResponse \<Rightarrow>
                   (let statusReceiving = receiving statusResponse;
                        rxHash = (case statusReceiving of None \<Rightarrow> None | Some i \<Rightarrow> tiTxHash i);
                        (proc1, step1) =
                          updateProcess step (ptype proc) DONE
                            (\<lambda>p. p\<lparr>substatus := srSubstatus statusResponse,
                                   substatusMessage :=
                                     orElse (srSubstatusMessage statusResponse)
                                       (getSubstatusMessage env (srStatus statusResponse)
                                          (srSubstatus statusResponse)),
                                   txHash := rxHash,
                                   txLink := Some (blockExplorerUrl toChain @ ''tx/''
                                                     @ interpolate rxHash)\<rparr>);
                        step2 =
                          updateExecution step1 DONE
                            (\<lambda>e. e\<lparr>fromAmount := tiAmount (sending statusResponse),
                                   toAmount := (case statusReceiving of None \<Rightarrow> None
                                                | Some i \<Rightarrow> tiAmount i),
                                   toToken := (case statusReceiving of None \<Rightarrow> None
                                               | Some i \<Rightarrow> tiToken i),
                                   gasAmount := tiGasAmount (sending statusResponse),
                                   gasAmountUSD := tiGasAmountUSD (sending statusResponse),
                                   gasPrice := tiGasPrice (sending statusResponse),
                                   gasToken := tiGasToken (sending statusResponse),
                                   gasUsed := tiGasUsed (sending statusResponse)\<rparr>)
                    in (Resolved, step2,
                        tr1 @ [EvUpdateProcess (ptype proc) DONE, EvUpdateExecution DONE]))))"

text \<open>
  \<open>executeStep\<close>: the result, the step as the executor leaves it (the returned step
  when the promise resolves) and the trace of the invocation.
\<close>

definition isBridgeExecution :: "SolanaEnv \<Rightarrow> Step \<Rightarrow> bool" where
  "isBridgeExecution env step =
     (chainId (getChainById env (fromChainId (action step)))
        \<noteq> chainId (getChainById env (toChainId (action step))))"

definition currentProcessType :: "SolanaEnv \<Rightarrow> Step \<Rightarrow> ProcessType" where
  "currentProcessType env step = (if isBridgeExecution env step then CROSS_CHAIN else SWAP)"

definition executeStep :: "SolanaEnv \<Rightarrow> Step \<Rightarrow> Result \<times> Step \<times> Event list" where
  "executeStep env step0 =
     (let step1 = step0\<lparr>execution := Some (initExecutionObject step0)\<rparr>;
          fromChain = getChainById env (fromChainId (action step1));
          toChain = getChainById env (toChainId (action step1));
          (proc, step2) = findOrCreateProcess step1 (currentProcessType env step1) STARTED
      in case sendPhase env fromChain (isBridgeExecution env step1) proc step2 [] of
           (Throw e, step3, tr) \<Rightarrow> (Rejected e, step3, tr)
         | (Return, step3, tr) \<Rightarrow> (Resolved, step3, tr)
         | (Go proc3, step3, tr) \<Rightarrow>
             receivingPhase env toChain (isBridgeExecution env step1) proc3 step3 tr)"

text \<open>
  Lines 41 to 44: the whole invocation, with the two chain lookups. \<open>lookupRejects\<close>
  gives, for a chain id, the error that \<open>config.getChainById\<close> rejects with there, if
  it rejects; the lookups are awaited outside every \<open>try\<close>, after the execution record
  has been initialised.
\<close>

definition executeStepInvocation ::
  "(int \<Rightarrow> exn option) \<Rightarrow> SolanaEnv \<Rightarrow> Step \<Rightarrow> Result \<times> Step \<times> Event list" where
  "executeStepInvocation lookupRejects env step0 =
     (let step1 = step0\<lparr>execution := Some (initExecutionObject step0)\<rparr>
      in case lookupRejects (fromChainId (action step1)) of
           Some e \<Rightarrow> (Rejected e, step1, [])
         | None \<Rightarrow>
             (case lookupRejects (toChainId (action step1)) of
                Some e \<Rightarrow> (Rejected e, step1, [])
              | None \<Rightarrow> executeStep env step0))"

section \<open>The multichain execution manager\<close>

text \<open>
  The collaborators of \<open>MultichainExecutionManager.execute\<close>, each by its outcome.
  \<open>getTransaction\<close> and \<open>signerSendTransaction\<close> give the hash of the transaction
  response, \<open>waitForDestinationChainReceipt\<close> the hash of the destination receipt,
  \<open>parseReceipt\<close> the parsed \<open>fromAmount\<close> and \<open>toAmount\<close>. \<open>checkAllowance\<close>
  keeps a ledger entry of its own (its source is not part of the two files); it is
  taken by its outcome. A collaborator rejects with an error object or a string.
\<close>

record MultichainEnv =
  shouldContinue :: bool
  chainById :: "int \<Rightarrow> Chain"
  checkAllowance :: "exn option"
  getTransaction :: "exn + string"
  balanceCheck :: "exn option"
  personalizeStep :: "exn + Step"
  lifiGetStepTransaction :: "exn + TransactionRequest option"
  signerSendTransaction :: "exn + string"
  txWait :: "exn option"
  parseWalletError :: "exn \<Rightarrow> exn"
  waitForDestinationChainReceipt :: "exn + string"
  signerGetAddress :: "exn + string"
  parseReceipt :: "exn + string option \<times> string option"

definition AddressZero :: string where
  "AddressZero = ''0x0000000000000000000000000000000000000000''"

text \<open>Lines 33 to 51: the allowance check.\<close>

definition allowancePhase :: "MultichainEnv \<Rightarrow> Step \<Rightarrow> exn option \<times> Event list" where
  "allowancePhase env step =
     (let oldCrossProcess = findProcess crossProcess (processes step)
      in if (case oldCrossProcess of None \<Rightarrow> True | Some p \<Rightarrow> \<not> truthy (txHash p))
         then
           (if fromTokenAddress (action step) \<noteq> AddressZero
            then (checkAllowance env, [EvCheckAllowance])
            else (None, []))
         else (None, []))"

text \<open>Lines 94: \<open>await tx.wait()\<close>.\<close>

definition awaitTx ::
  "MultichainEnv \<Rightarrow> string \<Rightarrow> Step \<Rightarrow> Event list \<Rightarrow> unit Flow \<times> Step \<times> Event list" where
  "awaitTx env h step tr =
     (case txWait env of
        Some e \<Rightarrow> (Throw e, step, tr @ [EvTxWait h])
      | None \<Rightarrow> (Go (), step, tr @ [EvTxWait h]))"

text \<open>
  Lines 66 to 91: the balance check, the transaction request, status
  \<open>ACTION_REQUIRED\<close>, the gate on \<open>shouldContinue\<close>, the broadcast, status
  \<open>PENDING\<close>. \<open>throw crossProcess.errorMessage\<close> throws the message that
  \<open>updateProcess\<close> has just written into the Process.
\<close>

definition createTransaction ::
  "MultichainEnv \<Rightarrow> Chain \<Rightarrow> Step \<Rightarrow> Event list \<Rightarrow> string Flow \<times> Step \<times> Event list" where
  "createTransaction env fromChain step tr =
     (case balanceCheck env of
        Some e \<Rightarrow> (Throw e, step, tr @ [EvCheckBalance])
      | None \<Rightarrow>
          (case personalizeStep env of
             Inl e \<Rightarrow> (Throw e, step, tr @ [EvCheckBalance, EvPersonalizeStep])
           | Inr personalizedStep \<Rightarrow>
               (let tr1 = tr @ [EvCheckBalance, EvPersonalizeStep, EvGetStepTransaction]
                in case lifiGetStepTransaction env of
                     Inl e \<Rightarrow> (Throw e, step, tr1)
                   | Inr None \<Rightarrow>
                       (let (p, step1) =
                              updateProcess step crossProcess FAILED
                                (\<lambda>p. p\<lparr>errorMessage := Some ''Unable to prepare Transaction''\<rparr>)
                        in (Throw (ThrownString (interpolate (errorMessage p))), step1,
                            tr1 @ [EvUpdateProcess crossProcess FAILED]))
                   | Inr (Some request) \<Rightarrow>
                       (let (p, step1) = updateProcess step crossProcess ACTION_REQUIRED id;
                            tr2 = tr1 @ [EvUpdateProcess crossProcess ACTION_REQUIRED]
                        in if \<not> shouldContinue env then (Return, step1, tr2)
                           else
                             (case signerSendTransaction env of
                                Inl e \<Rightarrow> (Throw e, step1, tr2 @ [EvSendTransaction (data request)])
                              | Inr h \<Rightarrow>
                                  (let (p', step2) =
                                         updateProcess step1 crossProcess PENDING
                                           (\<lambda>p. p\<lparr>txHash := Some h,
                                                  txLink := Some (blockExplorerUrl fromChain
                                                                    @ ''tx/'' @ h)\<rparr>)
                                   in (Go h, step2,
                                       tr2 @ [EvSendTransaction (data request),
                                              EvUpdateProcess crossProcess PENDING])))))))"

text \<open>Lines 61 to 94: the body of the first \<open>try\<close>.\<close>

definition crossTry ::
  "MultichainEnv \<Rightarrow> Chain \<Rightarrow> Process \<Rightarrow> Step \<Rightarrow> Event list
     \<Rightarrow> unit Flow \<times> Step \<times> Event list" where
  "crossTry env fromChain proc step tr =
     (if truthy (txHash proc)
      then
        (case getTransaction env of
           Inl e \<Rightarrow> (Throw e, step, tr @ [EvGetTransaction (interpolate (txHash proc))])
         | Inr h \<Rightarrow> awaitTx env h step (tr @ [EvGetTransaction (interpolate (txHash proc))]))
      else
        (case createTransaction env fromChain step tr of
           (Throw e, step', tr') \<Rightarrow> (Throw e, step', tr')
         | (Return, step', tr') \<Rightarrow> (Return, step', tr')
         | (Go h, step', tr') \<Rightarrow> awaitTx env h step' tr'))"

definition isReplaced :: "exn \<Rightarrow> bool" where
  "isReplaced e = (exnCode e = Some TRANSACTION_REPLACED \<and> exnReplacement e \<noteq> None)"

text \<open>Lines 60 to 114: the send phase with its \<open>catch\<close>.\<close>

definition crossPhase ::
  "MultichainEnv \<Rightarrow> Chain \<Rightarrow> Process \<Rightarrow> Step \<Rightarrow> Event list
     \<Rightarrow> unit Flow \<times> Step \<times> Event list" where
  "crossPhase env fromChain proc step tr =
     (case crossTry env fromChain proc step tr of
        (Throw e, step', tr') \<Rightarrow>
          if isReplaced e
          then
            (let (p, step1) =
                   updateProcess step' crossProcess PENDING
                     (\<lambda>p. p\<lparr>txHash := exnReplacement e,
                            txLink := Some (blockExplorerUrl fromChain @ ''tx/''
                                              @ interpolate (exnReplacement e))\<rparr>)
             in (Go (), step1, tr' @ [EvUpdateProcess crossProcess PENDING]))
          else
            (let err = parseWalletError env e;
                 (p, step1) =
                   updateProcess step' crossProcess FAILED
                     (\<lambda>p. p\<lparr>errorMessage := exnMessage err,
                            htmlErrorMessage := exnHtmlMessage err,
                            errorCode := exnCode err\<rparr>);
                 step2 = updateExecution step1 FAILED id
             in (Throw err, step2,
                 tr' @ [EvUpdateProcess crossProcess FAILED, EvUpdateExecution FAILED]))
      | r \<Rightarrow> r)"

text \<open>Lines 116 to 165: the wait for the receiver, the receipt, the final status.\<close>

definition waitPhase ::
  "MultichainEnv \<Rightarrow> Chain \<Rightarrow> Step \<Rightarrow> Event list \<Rightarrow> Result \<times> Step \<times> Event list" where
  "waitPhase env toChain step tr =
     (let (cp, step1) =
            updateProcess step crossProcess DONE (\<lambda>p. p\<lparr>pmessage := Some ''Transfer started: ''\<rparr>);
          (wp, step2) = findOrCreateProcessMsg step1 waitForTxProcess ''Wait for Receiving Chain'';
          tr1 = tr @ [EvUpdateProcess crossProcess DONE,
                      EvWaitForDestinationChainReceipt (txHash cp)]
      in case waitForDestinationChainReceipt env of
           Inl e \<Rightarrow>
             (let (wp', step3) =
                    updateProcess step2 waitForTxProcess FAILED
                      (\<lambda>p. p\<lparr>errorMessage := Some ''Failed waiting'', errorCode := exnCode e\<rparr>);
                  step4 = updateExecution step3 FAILED id
              in (Rejected e, step4,
                  tr1 @ [EvUpdateProcess waitForTxProcess FAILED, EvUpdateExecution FAILED]))
         | Inr receiptHash \<Rightarrow>
             (case signerGetAddress env of
                Inl e \<Rightarrow> (Rejected e, step2, tr1 @ [EvGetAddress])
              | Inr addr \<Rightarrow>
                  (case parseReceipt env of
                     Inl e \<Rightarrow> (Rejected e, step2, tr1 @ [EvGetAddress, EvParseReceipt])
                   | Inr (parsedFrom, parsedTo) \<Rightarrow>
                       (let (wp', step3) =
                              updateProcess step2 waitForTxProcess DONE
                                (\<lambda>p. p\<lparr>txHash := Some receiptHash,
                                       txLink := Some (blockExplorerUrl toChain @ ''tx/''
                                                         @ receiptHash),
                                       pmessage := Some ''Funds Received:''\<rparr>);
                            step4 =
                              updateExecution step3 DONE
                                (\<lambda>e. e\<lparr>fromAmount := parsedFrom, toAmount := parsedTo\<rparr>)
                        in (Resolved, step4,
                            tr1 @ [EvGetAddress, EvParseReceipt,
                                   EvUpdateProcess waitForTxProcess DONE,
                                   EvUpdateExecution DONE])))))"

text \<open>
  \<open>execute\<close>: the result, the step as the executor leaves it (its execution record
  is the returned value when the promise resolves) and the trace of the invocation.
\<close>

definition execute :: "MultichainEnv \<Rightarrow> Step \<Rightarrow> Result \<times> Step \<times> Event list" where
  "execute env step0 =
     (let step1 = step0\<lparr>execution := Some (initExecutionObject step0)\<rparr>;
          fromChain = chainById env (fromChainId (action step1));
          toChain = chainById env (toChainId (action step1))
      in case allowancePhase env step1 of
           (Some e, tr) \<Rightarrow> (Rejected e, step1, tr)
         | (None, tr) \<Rightarrow>
             (let (proc, step2) = findOrCreateProcessMsg step1 crossProcess ''Prepare Transaction''
              in case crossPhase env fromChain proc step2 tr of
                   (Throw e, step3, tr3) \<Rightarrow> (Rejected e, step3, tr3)
                 | (Return, step3, tr3) \<Rightarrow> (Resolved, step3, tr3)
                 | (Go u, step3, tr3) \<Rightarrow> waitPhase env toChain step3 tr3))"

section \<open>Observations on an invocation\<close>

definition outcomeOf :: "'a \<times> Step \<times> Event list \<Rightarrow> 'a" where
  "outcomeOf r = fst r"

definition stepOf :: "'a \<times> Step \<times> Event list \<Rightarrow> Step" where
  "stepOf r = fst (snd r)"

definition traceOf :: "'a \<times> Step \<times> Event list \<Rightarrow> Event list" where
  "traceOf r = snd (snd r)"

definition statusOf :: "ProcessType \<Rightarrow> Step \<Rightarrow> Status option" where
  "statusOf t step = map_option status (findProcess t (processes step))"

definition executionStatus :: "Step \<Rightarrow> Status option" where
  "executionStatus step = map_option estatus (execution step)"

text \<open>The variable \<open>process\<close> of \<open>executeStep\<close> at line 50, and the step there.\<close>

definition sendProcess :: "SolanaEnv \<Rightarrow> Step \<Rightarrow> Process" where
  "sendProcess env step =
     fst (findOrCreateProcess (step\<lparr>execution := Some (initExecutionObject step)\<rparr>)
            (currentProcessType env step) STARTED)"

definition entryStep :: "SolanaEnv \<Rightarrow> Step \<Rightarrow> Step" where
  "entryStep env step =
     snd (findOrCreateProcess (step\<lparr>execution := Some (initExecutionObject step)\<rparr>)
            (currentProcessType env step) STARTED)"

text \<open>The variable \<open>crossProcess\<close> of \<open>execute\<close> at line 54, and the step there.\<close>

definition crossProcessAtEntry :: "Step \<Rightarrow> Process" where
  "crossProcessAtEntry step =
     fst (findOrCreateProcessMsg (step\<lparr>execution := Some (initExecutionObject step)\<rparr>)
            crossProcess ''Prepare Transaction'')"

definition crossEntryStep :: "Step \<Rightarrow> Step" where
  "crossEntryStep step =
     snd (findOrCreateProcessMsg (step\<lparr>execution := Some (initExecutionObject step)\<rparr>)
            crossProcess ''Prepare Transaction'')"

text \<open>
  The payload check of line 87 passes: the step has a payload, or it has no
  transaction request and reconciliation yields a step with a payload.
\<close>

definition preparedPayload :: "SolanaEnv \<Rightarrow> Step \<Rightarrow> bool" where
  "preparedPayload env step =
     (case transactionRequest step of
        Some r \<Rightarrow> truthy (data r)
      | None \<Rightarrow>
          (case getStepTransaction env of
             Inl e \<Rightarrow> False
           | Inr updatedStep \<Rightarrow>
               (case stepComparison env of
                  Inl e \<Rightarrow> False
                | Inr comparedStep \<Rightarrow> hasPayload comparedStep)))"

text \<open>
  The payload check of line 87 is reached and fails: reconciliation (when it runs)
  succeeds and the step has no payload.
\<close>

definition unpreparedPayload :: "SolanaEnv \<Rightarrow> Step \<Rightarrow> bool" where
  "unpreparedPayload env step =
     (case transactionRequest step of
        Some r \<Rightarrow> \<not> truthy (data r)
      | None \<Rightarrow>
          (case getStepTransaction env of
             Inl e \<Rightarrow> False
           | Inr updatedStep \<Rightarrow>
               (case stepComparison env of
                  Inl e \<Rightarrow> False
                | Inr comparedStep \<Rightarrow> \<not> hasPayload comparedStep)))"

definition errorOf :: "ProcessType \<Rightarrow> Step \<Rightarrow> ErrorInfo option" where
  "errorOf t step = (case findProcess t (processes step) of None \<Rightarrow> None | Some p \<Rightarrow> error p)"

definition errorMessageOf :: "ProcessType \<Rightarrow> Step \<Rightarrow> string option" where
  "errorMessageOf t step =
     (case findProcess t (processes step) of None \<Rightarrow> None | Some p \<Rightarrow> errorMessage p)"

definition txHashOf :: "ProcessType \<Rightarrow> Step \<Rightarrow> string option" where
  "txHashOf t step = (case findProcess t (processes step) of None \<Rightarrow> None | Some p \<Rightarrow> txHash p)"

definition txLinkOf :: "ProcessType \<Rightarrow> Step \<Rightarrow> string option" where
  "txLinkOf t step = (case findProcess t (processes step) of None \<Rightarrow> None | Some p \<Rightarrow> txLink p)"

definition lastTwo :: "Event list \<Rightarrow> Event list" where
  "lastTwo tr = drop (length tr - 2) tr"

fun isSend :: "Event \<Rightarrow> bool" where
  "isSend (EvSendTransaction d) = True"
| "isSend ev = False"

fun isPendingUpdate :: "Event \<Rightarrow> bool" where
  "isPendingUpdate (EvUpdateProcess t s) = (s = PENDING)"
| "isPendingUpdate ev = False"

fun isDoneUpdate :: "Event \<Rightarrow> bool" where
  "isDoneUpdate (EvUpdateProcess t s) = (s = DONE)"
| "isDoneUpdate ev = False"

fun isBalanceCheck :: "Event \<Rightarrow> bool" where
  "isBalanceCheck EvCheckBalance = True"
| "isBalanceCheck ev = False"

fun isReconcile :: "Event \<Rightarrow> bool" where
  "isReconcile EvGetStepTransaction = True"
| "isReconcile EvStepComparison = True"
| "isReconcile ev = False"

fun isConfirm :: "Event \<Rightarrow> bool" where
  "isConfirm (EvConfirmTransaction h) = True"
| "isConfirm (EvTxWait h) = True"
| "isConfirm ev = False"

fun isWaitReceiving :: "Event \<Rightarrow> bool" where
  "isWaitReceiving (EvWaitForReceivingTransaction h t) = True"
| "isWaitReceiving ev = False"

fun isAllowance :: "Event \<Rightarrow> bool" where
  "isAllowance EvCheckAllowance = True"
| "isAllowance ev = False"

fun errorInfoOf :: "exn \<Rightarrow> ErrorInfo" where
  "errorInfoOf e = \<lparr>code = exnCode e, message = exnMessage e, htmlMessage = exnHtmlMessage e\<rparr>"

section \<open>Example inputs\<close>

definition exampleChains :: "int \<Rightarrow> Chain" where
  "exampleChains i = \<lparr>chainId = i, blockExplorerUrl = ''https://explorer.example/''\<rparr>"

definition tokenStep :: Step where
  "tokenStep =
     \<lparr>action = \<lparr>fromChainId = 1, toChainId = 137,
                 fromTokenAddress = ''0xA0b86991c6218b36c1d19D4a2e9Eb0cE3606eB48'',
                 toTokenAddress = ''0x2791Bca1f2de4661ED88A30C99A7a9449Aa84174'',
                 actionFromAmount = ''1000000''\<rparr>,
      estimate = \<lparr>approvalAddress = ''0x1231DEB6f5749EF6cE6943a275A1D3E7486F4EaE'',
                   estimateToAmount = ''999000''\<rparr>,
      transactionRequest = None, execution = None\<rparr>"

definition nativeStep :: Step where
  "nativeStep = tokenStep\<lparr>action := (action tokenStep)\<lparr>fromTokenAddress := AddressZero\<rparr>\<rparr>"

definition haltingMultichainEnv :: MultichainEnv where
  "haltingMultichainEnv =
     \<lparr>shouldContinue = False, chainById = exampleChains, checkAllowance = None,
      getTransaction = Inr ''0xaa'', balanceCheck = None, personalizeStep = Inr tokenStep,
      lifiGetStepTransaction =
        Inr (Some \<lparr>data = Some ''0x1234'', txTo = Some ''0x1231'', txValue = None\<rparr>),
      signerSendTransaction = Inr ''0xaa'', txWait = None, parseWalletError = (\<lambda>e. e),
      waitForDestinationChainReceipt = Inr ''0xbb'', signerGetAddress = Inr ''0xcc'',
      parseReceipt = Inr (Some ''1000000'', Some ''999000'')\<rparr>"

definition insufficientFunds :: exn where
  "insufficientFunds = Exn (Some InsufficientFunds) ''Insufficient funds'' None None"

definition exampleStatus :: StatusResponse where
  "exampleStatus =
     \<lparr>sending = \<lparr>tiTxHash = Some ''sig1'', tiAmount = Some ''1000000'', tiToken = Some ''SOL'',
                  tiGasAmount = Some ''5000'', tiGasAmountUSD = Some ''0.01'',
                  tiGasPrice = Some ''1'', tiGasToken = Some ''SOL'', tiGasUsed = Some ''5000''\<rparr>,
      receiving = Some \<lparr>tiTxHash = Some ''sig2'', tiAmount = Some ''999000'',
                         tiToken = Some ''USDC'', tiGasAmount = None, tiGasAmountUSD = None,
                         tiGasPrice = None, tiGasToken = None, tiGasUsed = None\<rparr>,
      srStatus = ''DONE'', srSubstatus = Some ''COMPLETED'', srSubstatusMessage = None\<rparr>"

definition swapStep :: Step where
  "swapStep =
     \<lparr>action = \<lparr>fromChainId = 1151111081099710, toChainId = 1151111081099710,
                 fromTokenAddress = ''11111111111111111111111111111111'',
                 toTokenAddress = ''EPjFWdd5AufqSSqeM2qN1xzybapC8G4wEGGkZwyTDt1v'',
                 actionFromAmount = ''1000000''\<rparr>,
      estimate = \<lparr>approvalAddress = '''', estimateToAmount = ''999000''\<rparr>,
      transactionRequest = Some \<lparr>data = Some ''AQID'', txTo = None, txValue = None\<rparr>,
      execution = None\<rparr>"

definition bridgeStep :: Step where
  "bridgeStep = swapStep\<lparr>action := (action swapStep)\<lparr>toChainId := 137\<rparr>\<rparr>"

definition solanaEnv :: SolanaEnv where
  "solanaEnv =
     \<lparr>allowUserInteraction = True, getChainById = exampleChains, getSolanaConnection = None,
      publicKey = Some ''owner'', checkBalance = None, getStepTransaction = Inr swapStep,
      stepComparison = Inr swapStep, updateTransactionRequestHook = None, deserialize = None,
      sendTransaction = Inr ''sig1'', confirmTransaction = Inr None,
      waitForReceivingTransaction = Inr exampleStatus, parseError = (\<lambda>e. e),
      getTransactionFailedMessage = (\<lambda>l. Inr (Some ''Transaction failed'')),
      getSubstatusMessage = (\<lambda>s ss. None)\<rparr>"

definition doneBridgeStep :: Step where
  "doneBridgeStep =
     bridgeStep\<lparr>execution :=
       Some (emptyExecution\<lparr>process :=
         [(newProcess CROSS_CHAIN DONE)\<lparr>txHash := Some ''sig1'',
             txLink := Some ''https://explorer.example/tx/sig1''\<rparr>]\<rparr>)\<rparr>"

definition pendingBridgeStep :: Step where
  "pendingBridgeStep =
     bridgeStep\<lparr>execution :=
       Some (emptyExecution\<lparr>process :=
         [(newProcess CROSS_CHAIN PENDING)\<lparr>txHash := Some ''sig1'',
             txLink := Some ''https://explorer.example/tx/sig1''\<rparr>]\<rparr>)\<rparr>"

definition pendingCrossStep :: Step where
  "pendingCrossStep =
     tokenStep\<lparr>execution :=
       Some (emptyExecution\<lparr>process :=
         [(newProcess crossProcess PENDING)\<lparr>txHash := Some ''0xaa'',
             txLink := Some ''https://explorer.example/tx/0xaa''\<rparr>]\<rparr>)\<rparr>"

definition sendTryRun :: "MultichainEnv \<Rightarrow> Step \<Rightarrow> unit Flow \<times> Step \<times> Event list" where
  "sendTryRun env step =
     crossTry env (chainById env (fromChainId (action step))) (crossProcessAtEntry step)
       (crossEntryStep step)
       (snd (allowancePhase env (step\<lparr>execution := Some (initExecutionObject step)\<rparr>)))"

definition replacedError :: exn where
  "replacedError = Exn (Some TRANSACTION_REPLACED) ''transaction was replaced'' None (Some ''0xrep'')"

definition continuingMultichainEnv :: MultichainEnv where
  "continuingMultichainEnv = haltingMultichainEnv\<lparr>shouldContinue := True\<rparr>"

definition replacingMultichainEnv :: MultichainEnv where
  "replacingMultichainEnv = continuingMultichainEnv\<lparr>txWait := Some replacedError\<rparr>"

definition sendPhaseRun :: "SolanaEnv \<Rightarrow> Step \<Rightarrow> Process Flow \<times> Step \<times> Event list" where
  "sendPhaseRun env step =
     sendPhase env (getChainById env (fromChainId (action step))) (isBridgeExecution env step)
       (sendProcess env step) (entryStep env step) []"

definition failingWaiterEnv :: SolanaEnv where
  "failingWaiterEnv =
     solanaEnv\<lparr>waitForReceivingTransaction := Inl (Error ''status request failed'')\<rparr>"

definition sentSwapProcess :: Process where
  "sentSwapProcess =
     (newProcess SWAP PENDING)\<lparr>txHash := Some ''sig1'',
        txLink := Some ''https://explorer.example/tx/sig1''\<rparr>"

definition sentBridgeProcess :: Process where
  "sentBridgeProcess =
     (newProcess CROSS_CHAIN DONE)\<lparr>txHash := Some ''sig1'',
        txLink := Some ''https://explorer.example/tx/sig1''\<rparr>"

definition sendTryRunSolana :: "SolanaEnv \<Rightarrow> Step \<Rightarrow> Process Flow \<times> Step \<times> Event list" where
  "sendTryRunSolana env step =
     sendTry env (getChainById env (fromChainId (action step))) (isBridgeExecution env step)
       (sendProcess env step) (entryStep env step) []"

definition hookAbsentEnv :: SolanaEnv where
  "hookAbsentEnv = solanaEnv\<lparr>updateTransactionRequestHook := Some (Inr Absent)\<rparr>"

definition hookUndefinedEnv :: SolanaEnv where
  "hookUndefinedEnv = solanaEnv\<lparr>updateTransactionRequestHook := Some (Inr Undefined)\<rparr>"

definition noDataEnv :: MultichainEnv where
  "noDataEnv =
     continuingMultichainEnv\<lparr>lifiGetStepTransaction :=
       Inr (Some \<lparr>data = None, txTo = Some ''0x1231'', txValue = Some ''1000000''\<rparr>)\<rparr>"

definition noRequestEnv :: MultichainEnv where
  "noRequestEnv = continuingMultichainEnv\<lparr>lifiGetStepTransaction := Inr None\<rparr>"

definition unpreparedStep :: Step where
  "unpreparedStep =
     swapStep\<lparr>transactionRequest := Some \<lparr>data = None, txTo = None, txValue = None\<rparr>\<rparr>"

definition errorCodeOf :: "ProcessType \<Rightarrow> Step \<Rightarrow> ErrorCode option" where
  "errorCodeOf t step =
     (case findProcess t (processes step) of None \<Rightarrow> None | Some p \<Rightarrow> errorCode p)"

definition brokeSolanaEnv :: SolanaEnv where
  "brokeSolanaEnv = solanaEnv\<lparr>checkBalance := Some insufficientFunds\<rparr>"

definition brokeMultichainEnv :: MultichainEnv where
  "brokeMultichainEnv = continuingMultichainEnv\<lparr>balanceCheck := Some insufficientFunds\<rparr>"

definition disconnectedEnv :: MultichainEnv where
  "disconnectedEnv =
     continuingMultichainEnv\<lparr>signerGetAddress := Inl (Error ''wallet disconnected'')\<rparr>"

definition requotedStep :: Step where
  "requotedStep =
     swapStep\<lparr>estimate := \<lparr>approvalAddress = [], estimateToAmount = ''998000''\<rparr>,
       transactionRequest := Some \<lparr>data = Some ''BAUG'', txTo = None, txValue = None\<rparr>,
       execution := Some (emptyExecution\<lparr>estatus := DONE\<rparr>)\<rparr>"

definition unquotedStep :: Step where
  "unquotedStep = swapStep\<lparr>transactionRequest := None\<rparr>"

definition requotingEnv :: SolanaEnv where
  "requotingEnv =
     solanaEnv\<lparr>allowUserInteraction := False, getStepTransaction := Inr requotedStep,
       stepComparison := Inr requotedStep\<rparr>"

definition failedSwapStep :: Step where
  "failedSwapStep =
     swapStep\<lparr>execution :=
       Some (emptyExecution\<lparr>estatus := FAILED,
         process := [(newProcess SWAP FAILED)\<lparr>error :=
           Some \<lparr>code = Some InsufficientFunds, message = Some ''Insufficient funds'',
                  htmlMessage = None\<rparr>\<rparr>]\<rparr>)\<rparr>"

definition doneSwapStep :: Step where
  "doneSwapStep =
     swapStep\<lparr>execution :=
       Some (emptyExecution\<lparr>estatus := DONE,
         process := [(newProcess SWAP DONE)\<lparr>txHash := Some ''sig2'',
           txLink := Some ''https://explorer.example/tx/sig2''\<rparr>]\<rparr>)\<rparr>"

definition haltingSolanaEnv :: SolanaEnv where
  "haltingSolanaEnv = solanaEnv\<lparr>allowUserInteraction := False\<rparr>"

text \<open>
  The \<open>try\<close> of the send phase of \<open>execute\<close> ends with a transaction-replacement
  error, which its \<open>catch\<close> records with status \<open>PENDING\<close>.
\<close>

definition replacedInTry :: "MultichainEnv \<Rightarrow> Step \<Rightarrow> bool" where
  "replacedInTry env step =
     (case outcomeOf (sendTryRun env step) of Throw e \<Rightarrow> isReplaced e | _ \<Rightarrow> False)"

definition approvalRejectedEnv :: MultichainEnv where
  "approvalRejectedEnv =
     continuingMultichainEnv\<lparr>checkAllowance := Some (Error ''user rejected the approval'')\<rparr>"

definition receiptTimeoutEnv :: MultichainEnv where
  "receiptTimeoutEnv =
     continuingMultichainEnv\<lparr>waitForDestinationChainReceipt := Inl (Error ''receipt timeout'')\<rparr>"

definition unknownChain :: "int \<Rightarrow> exn option" where
  "unknownChain i = (if i = 1151111081099710 then None else Some (Error ''ChainId not found''))"

definition explorerDownEnv :: SolanaEnv where
  "explorerDownEnv =
     failingWaiterEnv\<lparr>getTransactionFailedMessage := (\<lambda>l. Inl (Error ''chain lookup failed''))\<rparr>"

section \<open>The ledger and the blocks of the executors\<close>

lemmas example_defs =
  insufficientFunds_def exampleStatus_def swapStep_def bridgeStep_def solanaEnv_def
  exampleChains_def tokenStep_def nativeStep_def haltingMultichainEnv_def AddressZero_def

lemmas run_defs =
  executeStep_def sendPhase_def sendTry_def newTransaction_def customizeAndSend_def confirm_def
  reconcile_def receivingPhase_def receivingFailed_def isBridgeExecution_def
  currentProcessType_def hasPayload_def payload_def mergeData_def unprepared_def
  TransactionError_def Error_def TypeError_def
  execute_def allowancePhase_def crossPhase_def crossTry_def createTransaction_def awaitTx_def
  waitPhase_def isReplaced_def
  initExecutionObject_def emptyExecution_def findOrCreateProcess_def findOrCreateProcessMsg_def
  findOrInsert_def updateProcess_def updateExecution_def newProcess_def processes_def
  truthy_def interpolate_def orElse_def
  outcomeOf_def stepOf_def traceOf_def statusOf_def executionStatus_def errorOf_def
  errorMessageOf_def txHashOf_def txLinkOf_def lastTwo_def preparedPayload_def unpreparedPayload_def


lemma triple_simps [simp]:
  "outcomeOf (a, b, c) = a" "stepOf (a, b, c) = b" "traceOf (a, b, c) = c"
  by (simp_all add: outcomeOf_def stepOf_def traceOf_def)

lemma findProcess_ptype: "findProcess t ps = Some p \<Longrightarrow> ptype p = t"
  by (induction ps) (auto split: if_splits)

lemma patchProcess_absent: "findProcess t ps = None \<Longrightarrow> patchProcess t f ps = ps"
  by (induction ps) (auto split: if_splits)

lemma findProcess_patch_same:
  "(\<And>p. ptype (f p) = ptype p) \<Longrightarrow> findProcess t (patchProcess t f ps) = map_option f (findProcess t ps)"
  by (induction ps) auto

lemma findProcess_patch_other:
  "(\<And>p. ptype (f p) = ptype p) \<Longrightarrow> t \<noteq> t' \<Longrightarrow> findProcess t (patchProcess t' f ps) = findProcess t ps"
  by (induction ps) auto

lemma findProcess_append:
  "findProcess t (ps @ [q]) =
     (case findProcess t ps of Some p \<Rightarrow> Some p | None \<Rightarrow> if ptype q = t then Some q else None)"
  by (induction ps) auto

lemma processes_updateProcess:
  "processes (snd (updateProcess step t s f)) = patchProcess t (\<lambda>q. f (q\<lparr>status := s\<rparr>)) (processes step)"
  by (cases "execution step")
     (auto simp: updateProcess_def processes_def patchProcess_absent split: option.splits)

lemma fst_updateProcess:
  "fst (updateProcess step t s f) =
     (case findProcess t (processes step) of None \<Rightarrow> f (newProcess t s) | Some p \<Rightarrow> f (p\<lparr>status := s\<rparr>))"
  by (simp add: updateProcess_def split: option.splits)

lemma ptype_fst_updateProcess:
  "(\<And>p. ptype (f p) = ptype p) \<Longrightarrow> ptype (fst (updateProcess step t s f)) = t"
  by (auto simp: fst_updateProcess newProcess_def split: option.splits dest: findProcess_ptype)

lemma frame_updateProcess:
  "transactionRequest (snd (updateProcess step t s f)) = transactionRequest step"
  "action (snd (updateProcess step t s f)) = action step"
  "estimate (snd (updateProcess step t s f)) = estimate step"
  "map_option estatus (execution (snd (updateProcess step t s f))) = map_option estatus (execution step)"
  by (cases "execution step"; auto simp: updateProcess_def split: option.splits)+

lemma processes_findOrInsert:
  "processes (snd (findOrInsert step new)) =
     (if findProcess (ptype new) (processes step) = None \<and> execution step \<noteq> None
      then processes step @ [new] else processes step)"
  by (auto simp: findOrInsert_def processes_def split: option.splits)

lemma fst_findOrInsert:
  "fst (findOrInsert step new) =
     (case findProcess (ptype new) (processes step) of None \<Rightarrow> new | Some p \<Rightarrow> p)"
  by (simp add: findOrInsert_def split: option.splits)

lemma frame_findOrInsert:
  "transactionRequest (snd (findOrInsert step new)) = transactionRequest step"
  "action (snd (findOrInsert step new)) = action step"
  "map_option estatus (execution (snd (findOrInsert step new))) = map_option estatus (execution step)"
  by (cases "execution step"; auto simp: findOrInsert_def split: option.splits)+

lemma processes_updateExecution:
  "(\<And>e. process (f e) = process e) \<Longrightarrow> processes (updateExecution step s f) = processes step"
  by (auto simp: updateExecution_def processes_def split: option.splits)

lemma estatus_updateExecution:
  "(\<And>e. estatus (f e) = estatus e) \<Longrightarrow>
   map_option estatus (execution (updateExecution step s f)) = map_option (\<lambda>e. s) (execution step)"
  by (cases "execution step"; auto simp: updateExecution_def split: option.splits)


lemma processes_init [simp]:
  "processes (step\<lparr>execution := Some (initExecutionObject step)\<rparr>) = processes step"
  by (simp add: processes_def initExecutionObject_def emptyExecution_def split: option.splits)

lemma processes_execution_cong [simp]:
  "processes (c\<lparr>execution := execution s\<rparr>) = processes s"
  by (simp add: processes_def)

lemma env_frame [simp]:
  "isBridgeExecution env (step\<lparr>execution := x\<rparr>) = isBridgeExecution env step"
  "currentProcessType env (step\<lparr>execution := x\<rparr>) = currentProcessType env step"
  by (simp_all add: isBridgeExecution_def currentProcessType_def)

lemma sendProcess_ptype [simp]: "ptype (sendProcess env step) = currentProcessType env step"
  by (auto simp: sendProcess_def findOrCreateProcess_def fst_findOrInsert newProcess_def
           split: option.splits dest: findProcess_ptype)

lemma entryStep_find [simp]:
  "findProcess (currentProcessType env step) (processes (entryStep env step)) = Some (sendProcess env step)"
  by (auto simp: entryStep_def sendProcess_def findOrCreateProcess_def processes_findOrInsert
                 fst_findOrInsert findProcess_append newProcess_def split: option.splits)

lemma entryStep_frame [simp]:
  "transactionRequest (entryStep env step) = transactionRequest step"
  "action (entryStep env step) = action step"
  by (simp_all add: entryStep_def findOrCreateProcess_def frame_findOrInsert)

lemma executeStep_unfold:
  "executeStep env step =
     (case sendPhase env (getChainById env (fromChainId (action step))) (isBridgeExecution env step)
             (sendProcess env step) (entryStep env step) [] of
        (Throw e, s, tr) \<Rightarrow> (Rejected e, s, tr)
      | (Return, s, tr) \<Rightarrow> (Resolved, s, tr)
      | (Go p, s, tr) \<Rightarrow>
          receivingPhase env (getChainById env (toChainId (action step))) (isBridgeExecution env step) p s tr)"
  by (cases "findOrCreateProcess (step\<lparr>execution := Some (initExecutionObject step)\<rparr>)
                (currentProcessType env step) STARTED")
     (simp add: executeStep_def Let_def sendProcess_def entryStep_def split: prod.splits Flow.splits)


lemma executeStepInvocation_resolved:
  "lookupRejects (fromChainId (action step)) = None \<Longrightarrow>
   lookupRejects (toChainId (action step)) = None \<Longrightarrow>
     executeStepInvocation lookupRejects env step = executeStep env step"
  by (simp add: executeStepInvocation_def)

lemma filter_snoc_not: "\<not> P ev \<Longrightarrow> filter P (tr @ [ev]) = filter P tr"
  by simp

lemma patch_keeps_find:
  "(\<And>p. ptype (f p) = ptype p) \<Longrightarrow>
     (findProcess t (patchProcess t' f ps) = None) = (findProcess t ps = None)"
  by (induction ps) auto

lemma updateProcess_keeps:
  "(\<And>p. ptype (f p) = ptype p) \<Longrightarrow>
     (findProcess t (processes (snd (updateProcess step t' s f))) = None)
       = (findProcess t (processes step) = None)"
  by (simp add: processes_updateProcess patch_keeps_find)

lemma updateProcess_execution:
  "(execution (snd (updateProcess step t s f)) = None) = (execution step = None)"
  by (cases "execution step"; simp add: updateProcess_def split: option.splits)

lemma updateExecution_execution:
  "(execution (updateExecution step s f) = None) = (execution step = None)"
  by (cases "execution step"; simp add: updateExecution_def)

lemma statusOf_updateProcess_same:
  "(\<And>p. ptype (f p) = ptype p) \<Longrightarrow> (\<And>p. status (f p) = status p) \<Longrightarrow>
     findProcess t (processes step) \<noteq> None \<Longrightarrow>
     statusOf t (snd (updateProcess step t s f)) = Some s"
  by (auto simp: statusOf_def processes_updateProcess findProcess_patch_same)

lemma statusOf_updateProcess_other:
  "(\<And>p. ptype (f p) = ptype p) \<Longrightarrow> t \<noteq> t' \<Longrightarrow>
     statusOf t (snd (updateProcess step t' s f)) = statusOf t step"
  by (simp add: statusOf_def processes_updateProcess findProcess_patch_other)

lemma statusOf_updateExecution:
  "(\<And>e. process (f e) = process e) \<Longrightarrow> statusOf t (updateExecution step s f) = statusOf t step"
  by (simp add: statusOf_def processes_updateExecution)

lemma executionStatus_updateProcess:
  "executionStatus (snd (updateProcess step t s f)) = executionStatus step"
  by (simp add: executionStatus_def frame_updateProcess)

lemma executionStatus_updateExecution:
  "(\<And>e. estatus (f e) = estatus e) \<Longrightarrow> execution step \<noteq> None \<Longrightarrow>
     executionStatus (updateExecution step s f) = Some s"
  by (cases "execution step"; simp add: executionStatus_def updateExecution_def)

lemma entryStep_execution [simp]: "execution (entryStep env step) \<noteq> None"
  by (simp add: entryStep_def findOrCreateProcess_def findOrInsert_def split: option.splits)


lemmas obs_simps = outcomeOf_def stepOf_def traceOf_def

text \<open>Blocks of the Solana executor: what they leave in place.\<close>

lemma reconcile_frame:
  "processes (fst (snd (reconcile env step tr))) = processes step"
  "execution (fst (snd (reconcile env step tr))) = execution step"
  by (auto simp: reconcile_def split: option.splits sum.splits)

lemma customizeAndSend_keeps:
  "(findProcess t (processes (fst (snd (customizeAndSend env fc proc step tr)))) = None)
     = (findProcess t (processes step) = None)"
  "(execution (fst (snd (customizeAndSend env fc proc step tr))) = None) = (execution step = None)"
  by (auto simp: customizeAndSend_def Let_def split_def updateProcess_keeps updateProcess_execution
           split: option.splits sum.splits)

lemma newTransaction_keeps:
  "(findProcess t (processes (fst (snd (newTransaction env fc proc step tr)))) = None)
     = (findProcess t (processes step) = None)"
  "(execution (fst (snd (newTransaction env fc proc step tr))) = None) = (execution step = None)"
  by (auto simp: newTransaction_def Let_def split_def updateProcess_keeps updateProcess_execution
                 customizeAndSend_keeps reconcile_frame
           split: option.splits sum.splits)

lemma confirm_keeps:
  "(findProcess t (processes (fst (snd (confirm env b proc h step tr)))) = None)
     = (findProcess t (processes step) = None)"
  "(execution (fst (snd (confirm env b proc h step tr))) = None) = (execution step = None)"
  by (auto simp: confirm_def Let_def split_def updateProcess_keeps updateProcess_execution
           split: option.splits sum.splits)

lemma sendTry_keeps:
  "(findProcess t (processes (fst (snd (sendTry env fc b proc step tr)))) = None)
     = (findProcess t (processes step) = None)"
  "(execution (fst (snd (sendTry env fc b proc step tr))) = None) = (execution step = None)"
  by (auto simp: sendTry_def split_def confirm_keeps newTransaction_keeps
           split: option.splits Flow.splits)


lemma lastTwo_snoc2 [simp]: "lastTwo (tr @ [a, b]) = [a, b]"
  by (simp add: lastTwo_def)

text \<open>Which events the blocks add.\<close>

lemma confirm_filters:
  "filter isSend (snd (snd (confirm env b proc h step tr))) = filter isSend tr"
  "filter isPendingUpdate (snd (snd (confirm env b proc h step tr))) = filter isPendingUpdate tr"
  "filter isBalanceCheck (snd (snd (confirm env b proc h step tr))) = filter isBalanceCheck tr"
  "filter isReconcile (snd (snd (confirm env b proc h step tr))) = filter isReconcile tr"
  by (simp_all add: confirm_def Let_def split_def split: sum.splits)

lemma receivingPhase_filters:
  "filter isSend (snd (snd (receivingPhase env tc b proc step tr))) = filter isSend tr"
  "filter isPendingUpdate (snd (snd (receivingPhase env tc b proc step tr))) = filter isPendingUpdate tr"
  "filter isBalanceCheck (snd (snd (receivingPhase env tc b proc step tr))) = filter isBalanceCheck tr"
  "filter isReconcile (snd (snd (receivingPhase env tc b proc step tr))) = filter isReconcile tr"
  "filter isConfirm (snd (snd (receivingPhase env tc b proc step tr))) = filter isConfirm tr"
  by (simp_all add: receivingPhase_def receivingFailed_def Let_def split_def split: sum.splits)

lemma sendPhase_resume_filters:
  assumes "truthy (txHash proc)"
  shows "filter isSend (snd (snd (sendPhase env fc b proc step tr))) = filter isSend tr"
    and "filter isBalanceCheck (snd (snd (sendPhase env fc b proc step tr))) = filter isBalanceCheck tr"
    and "filter isReconcile (snd (snd (sendPhase env fc b proc step tr))) = filter isReconcile tr"
  using assms
  by (simp_all add: sendPhase_def sendTry_def Let_def split_def confirm_filters
        split: option.splits Flow.splits)

lemma sendPhase_resume_first:
  assumes "truthy (txHash proc)" "status proc \<noteq> DONE" "getSolanaConnection env = None"
  shows "take 1 (snd (snd (sendPhase env fc b proc step []))) = [EvConfirmTransaction (interpolate (txHash proc))]"
  using assms
  by (simp add: sendPhase_def sendTry_def confirm_def Let_def split_def
        split: option.splits Flow.splits sum.splits)

lemma resume_solana_trace:
  assumes "truthy (txHash (sendProcess env step))"
  shows "filter isBalanceCheck (traceOf (executeStep env step)) = []
     \<and> filter isReconcile (traceOf (executeStep env step)) = []
     \<and> filter isSend (traceOf (executeStep env step)) = []
     \<and> (status (sendProcess env step) \<noteq> DONE \<and> getSolanaConnection env = None \<longrightarrow>
          take 1 (traceOf (executeStep env step))
            = [EvConfirmTransaction (interpolate (txHash (sendProcess env step)))])
     \<and> (status (sendProcess env step) = DONE \<longrightarrow>
          filter isConfirm (traceOf (executeStep env step)) = []
          \<and> take 1 (traceOf (executeStep env step))
               = [EvWaitForReceivingTransaction (interpolate (txHash (sendProcess env step)))
                    (if isBridgeExecution env step then RECEIVING_CHAIN else currentProcessType env step)])"
proof -
  let ?sp = "sendPhase env (getChainById env (fromChainId (action step))) (isBridgeExecution env step)
               (sendProcess env step) (entryStep env step) []"
  note f = sendPhase_resume_filters[OF assms, of env "getChainById env (fromChainId (action step))"
             "isBridgeExecution env step" "entryStep env step" "[]"]
  have a: "filter isBalanceCheck (traceOf (executeStep env step)) = []"
       "filter isReconcile (traceOf (executeStep env step)) = []"
       "filter isSend (traceOf (executeStep env step)) = []"
    using f by (simp_all add: executeStep_unfold obs_simps split_def receivingPhase_filters split: Flow.splits)
  have b: "status (sendProcess env step) \<noteq> DONE \<and> getSolanaConnection env = None \<longrightarrow>
          take 1 (traceOf (executeStep env step))
            = [EvConfirmTransaction (interpolate (txHash (sendProcess env step)))]"
  proof (intro impI, elim conjE)
    assume h: "status (sendProcess env step) \<noteq> DONE" "getSolanaConnection env = None"
    have "\<exists>rest. snd (snd ?sp) = EvConfirmTransaction (interpolate (txHash (sendProcess env step))) # rest"
      using assms h
      by (simp add: sendPhase_def sendTry_def confirm_def Let_def split_def
            split: option.splits Flow.splits sum.splits)
    then obtain rest where r: "snd (snd ?sp) = EvConfirmTransaction (interpolate (txHash (sendProcess env step))) # rest"
      by blast
    show "take 1 (traceOf (executeStep env step))
            = [EvConfirmTransaction (interpolate (txHash (sendProcess env step)))]"
      using r
      by (auto simp: executeStep_unfold obs_simps split_def receivingPhase_def receivingFailed_def Let_def
            split: Flow.splits sum.splits)
  qed
  have c: "status (sendProcess env step) = DONE \<longrightarrow>
          filter isConfirm (traceOf (executeStep env step)) = []
          \<and> take 1 (traceOf (executeStep env step))
               = [EvWaitForReceivingTransaction (interpolate (txHash (sendProcess env step)))
                    (if isBridgeExecution env step then RECEIVING_CHAIN else currentProcessType env step)]"
    using assms
    by (auto simp: executeStep_unfold obs_simps sendPhase_def receivingPhase_def receivingFailed_def
          Let_def split_def findOrCreateProcess_def fst_findOrInsert newProcess_def
          split: sum.splits option.splits dest: findProcess_ptype)
  show ?thesis using a b c by blast
qed


text \<open>Blocks of the multichain executor.\<close>

lemma crossProcessAtEntry_ptype [simp]: "ptype (crossProcessAtEntry step) = crossProcess"
  by (auto simp: crossProcessAtEntry_def findOrCreateProcessMsg_def fst_findOrInsert newProcess_def
           split: option.splits dest: findProcess_ptype)

lemma crossEntryStep_find [simp]:
  "findProcess crossProcess (processes (crossEntryStep step)) = Some (crossProcessAtEntry step)"
  by (auto simp: crossEntryStep_def crossProcessAtEntry_def findOrCreateProcessMsg_def
                 processes_findOrInsert fst_findOrInsert findProcess_append newProcess_def
           split: option.splits)

lemma crossEntryStep_execution [simp]: "execution (crossEntryStep step) \<noteq> None"
  by (simp add: crossEntryStep_def findOrCreateProcessMsg_def findOrInsert_def split: option.splits)

lemma crossProcessAtEntry_txHash:
  "txHash (crossProcessAtEntry step)
     = (case findProcess crossProcess (processes step) of None \<Rightarrow> None | Some p \<Rightarrow> txHash p)"
  by (simp add: crossProcessAtEntry_def findOrCreateProcessMsg_def fst_findOrInsert newProcess_def
        split: option.splits)

lemma execute_unfold:
  "execute env step =
     (case allowancePhase env (step\<lparr>execution := Some (initExecutionObject step)\<rparr>) of
        (Some e, tr) \<Rightarrow> (Rejected e, step\<lparr>execution := Some (initExecutionObject step)\<rparr>, tr)
      | (None, tr) \<Rightarrow>
          (case crossPhase env (chainById env (fromChainId (action step)))
                  (crossProcessAtEntry step) (crossEntryStep step) tr of
             (Throw e, s, tr') \<Rightarrow> (Rejected e, s, tr')
           | (Return, s, tr') \<Rightarrow> (Resolved, s, tr')
           | (Go u, s, tr') \<Rightarrow> waitPhase env (chainById env (toChainId (action step))) s tr'))"
  by (cases "findOrCreateProcessMsg (step\<lparr>execution := Some (initExecutionObject step)\<rparr>)
                crossProcess ''Prepare Transaction''")
     (simp add: execute_def Let_def crossProcessAtEntry_def crossEntryStep_def
        split: prod.splits Flow.splits option.splits)

lemma allowancePhase_eq:
  "allowancePhase env (step\<lparr>execution := Some (initExecutionObject step)\<rparr>) =
     (if \<not> truthy (txHash (crossProcessAtEntry step)) \<and> fromTokenAddress (action step) \<noteq> AddressZero
      then (checkAllowance env, [EvCheckAllowance]) else (None, []))"
  by (simp add: allowancePhase_def crossProcessAtEntry_txHash truthy_def split: option.splits)

lemma waitPhase_filters:
  "filter isAllowance (snd (snd (waitPhase env tc step tr))) = filter isAllowance tr"
  "filter isSend (snd (snd (waitPhase env tc step tr))) = filter isSend tr"
  "filter isPendingUpdate (snd (snd (waitPhase env tc step tr))) = filter isPendingUpdate tr"
  "filter isBalanceCheck (snd (snd (waitPhase env tc step tr))) = filter isBalanceCheck tr"
  "filter isReconcile (snd (snd (waitPhase env tc step tr))) = filter isReconcile tr"
  by (simp_all add: waitPhase_def Let_def split_def split: sum.splits)

lemma waitPhase_prefix: "prefix tr (snd (snd (waitPhase env tc step tr)))"
  by (simp add: waitPhase_def Let_def split_def split: sum.splits)

lemma createTransaction_allowance:
  "filter isAllowance (snd (snd (createTransaction env fc step tr))) = filter isAllowance tr"
  by (simp add: createTransaction_def Let_def split_def split: sum.splits option.splits)

lemma crossPhase_allowance:
  "filter isAllowance (snd (snd (crossPhase env fc proc step tr))) = filter isAllowance tr"
  by (simp add: crossPhase_def crossTry_def awaitTx_def Let_def split_def createTransaction_allowance
        split: sum.splits option.splits Flow.splits)

lemma createTransaction_prefix: "prefix tr (snd (snd (createTransaction env fc step tr)))"
  by (simp add: createTransaction_def Let_def split_def split: sum.splits option.splits)

lemma crossPhase_prefix: "prefix tr (snd (snd (crossPhase env fc proc step tr)))"
  using createTransaction_prefix[of tr env fc step]
  by (auto simp: crossPhase_def crossTry_def awaitTx_def Let_def split_def
        split: sum.splits option.splits Flow.splits)

lemma execute_allowance_first:
  assumes "fromTokenAddress (action step) \<noteq> AddressZero"
    and "\<not> truthy (txHash (crossProcessAtEntry step))"
  shows "prefix [EvCheckAllowance] (traceOf (execute env step))"
    and "filter isAllowance (traceOf (execute env step)) = [EvCheckAllowance]"
proof -
  let ?cp = "crossPhase env (chainById env (fromChainId (action step)))
                  (crossProcessAtEntry step) (crossEntryStep step) [EvCheckAllowance]"
  have p: "prefix [EvCheckAllowance] (snd (snd ?cp))"
    by (rule crossPhase_prefix)
  have f: "filter isAllowance (snd (snd ?cp)) = [EvCheckAllowance]"
    by (simp add: crossPhase_allowance)
  have w: "\<And>tc s. prefix [EvCheckAllowance] (snd (snd (waitPhase env tc s (snd (snd ?cp)))))"
    using p waitPhase_prefix prefix_order.trans by blast
  show "prefix [EvCheckAllowance] (traceOf (execute env step))"
    using assms p w
    by (simp add: execute_unfold allowancePhase_eq obs_simps split_def split: option.splits Flow.splits)
  show "filter isAllowance (traceOf (execute env step)) = [EvCheckAllowance]"
    using assms f
    by (simp add: execute_unfold allowancePhase_eq obs_simps split_def waitPhase_filters
          split: option.splits Flow.splits)
qed

lemma execute_allowance_skipped:
  assumes "fromTokenAddress (action step) = AddressZero \<or> truthy (txHash (crossProcessAtEntry step))"
  shows "filter isAllowance (traceOf (execute env step)) = []"
  using assms
  by (auto simp: execute_unfold allowancePhase_eq obs_simps split_def waitPhase_filters crossPhase_allowance
        split: option.splits Flow.splits)



lemma sendProcess_txHash: "txHash (sendProcess env step) = txHashOf (currentProcessType env step) step"
  by (simp add: sendProcess_def findOrCreateProcess_def fst_findOrInsert newProcess_def txHashOf_def
        split: option.splits)

lemma sendProcess_status:
  "(status (sendProcess env step) = DONE) = (statusOf (currentProcessType env step) step = Some DONE)"
  by (simp add: sendProcess_def findOrCreateProcess_def fst_findOrInsert newProcess_def statusOf_def
        split: option.splits)

lemma crossProcessAtEntry_txHashOf: "txHash (crossProcessAtEntry step) = txHashOf crossProcess step"
  by (simp add: crossProcessAtEntry_txHash txHashOf_def)

section \<open>The claims\<close>

lemma execute_allowance_failed:
  assumes "fromTokenAddress (action step) \<noteq> AddressZero"
    and "\<not> truthy (txHash (crossProcessAtEntry step))"
    and "checkAllowance env = Some e"
  shows "execute env step = (Rejected e, step\<lparr>execution := Some (initExecutionObject step)\<rparr>,
                             [EvCheckAllowance])"
  using assms by (simp add: execute_unfold allowancePhase_eq)

text \<open>
  C10. In the multichain executor, a step whose source token is not the native token
  (its address differs from the zero address) and whose send-phase Process carries no
  transaction hash has its token allowance checked, once, before anything else of the
  invocation; when that check fails the invocation rejects with its error and the send
  phase does not begin: the check is the only action of the invocation. The allowance
  check is skipped when the source token is the native token or the send-phase Process
  already carries a transaction hash.
\<close>

theorem allowance_check_gate:
  "(fromTokenAddress (action step) \<noteq> AddressZero \<and> \<not> truthy (txHashOf crossProcess step) \<longrightarrow>
      prefix [EvCheckAllowance] (traceOf (execute env step))
      \<and> filter isAllowance (traceOf (execute env step)) = [EvCheckAllowance])
   \<and> (fromTokenAddress (action step) \<noteq> AddressZero \<and> \<not> truthy (txHashOf crossProcess step)
      \<and> checkAllowance env = Some e \<longrightarrow>
      outcomeOf (execute env step) = Rejected e
      \<and> traceOf (execute env step) = [EvCheckAllowance]
      \<and> processes (stepOf (execute env step)) = processes step)
   \<and> (fromTokenAddress (action step) = AddressZero \<or> truthy (txHashOf crossProcess step) \<longrightarrow>
      filter isAllowance (traceOf (execute env step)) = [])"
  using execute_allowance_first[of step env] execute_allowance_skipped[of step env]
        execute_allowance_failed[of step env e]
  by (simp add: crossProcessAtEntry_txHashOf)

theorem allowance_check_gate_witness:
  "fromTokenAddress (action tokenStep) \<noteq> AddressZero
   \<and> \<not> truthy (txHashOf crossProcess tokenStep)
   \<and> prefix [EvCheckAllowance] (traceOf (execute haltingMultichainEnv tokenStep))
   \<and> checkAllowance approvalRejectedEnv = Some (Error ''user rejected the approval'')
   \<and> outcomeOf (execute approvalRejectedEnv tokenStep) = Rejected (Error ''user rejected the approval'')
   \<and> traceOf (execute approvalRejectedEnv tokenStep) = [EvCheckAllowance]
   \<and> fromTokenAddress (action nativeStep) = AddressZero
   \<and> filter isAllowance (traceOf (execute haltingMultichainEnv nativeStep)) = []"
  using allowance_check_gate[of tokenStep haltingMultichainEnv "Error []"]
        allowance_check_gate[of tokenStep approvalRejectedEnv "Error ''user rejected the approval''"]
        allowance_check_gate[of nativeStep haltingMultichainEnv "Error []"]
  by (simp add: tokenStep_def nativeStep_def AddressZero_def txHashOf_def processes_def truthy_def
        approvalRejectedEnv_def continuingMultichainEnv_def haltingMultichainEnv_def)

lemma reconcile_prepared:
  "preparedPayload env step \<Longrightarrow>
     outcomeOf (reconcile env step tr) = Inr ()
     \<and> hasPayload (stepOf (reconcile env step tr))
     \<and> processes (stepOf (reconcile env step tr)) = processes step
     \<and> filter isSend (traceOf (reconcile env step tr)) = filter isSend tr
     \<and> filter isPendingUpdate (traceOf (reconcile env step tr)) = filter isPendingUpdate tr"
  by (auto simp: preparedPayload_def reconcile_def hasPayload_def split: option.splits sum.splits)

lemma gate_solana:
  assumes "\<not> allowUserInteraction env"
    and "statusOf (currentProcessType env step) step \<noteq> Some DONE"
    and "\<not> truthy (txHashOf (currentProcessType env step) step)"
    and "getSolanaConnection env = None"
    and "publicKey env \<noteq> None"
    and "checkBalance env = None"
    and "preparedPayload env step"
  shows "outcomeOf (executeStep env step) = Resolved
    \<and> statusOf (currentProcessType env step) (stepOf (executeStep env step)) = Some ACTION_REQUIRED
    \<and> filter isSend (traceOf (executeStep env step)) = []
    \<and> filter isPendingUpdate (traceOf (executeStep env step)) = []
    \<and> last (traceOf (executeStep env step)) = EvUpdateProcess (currentProcessType env step) ACTION_REQUIRED"
proof -
  let ?t = "currentProcessType env step"
  let ?s1 = "snd (updateProcess (entryStep env step) ?t STARTED id)"
  have a2: "status (sendProcess env step) \<noteq> DONE" using assms(2) by (simp add: sendProcess_status)
  have a3: "\<not> truthy (txHash (sendProcess env step))" using assms(3) by (simp add: sendProcess_txHash)
  have pp: "preparedPayload env ?s1"
    using assms(7) by (simp add: preparedPayload_def frame_updateProcess)
  note rc = reconcile_prepared[OF pp, of "[EvUpdateProcess ?t STARTED, EvCheckBalance]"]
  obtain u s2 tr2 where r: "reconcile env ?s1 [EvUpdateProcess ?t STARTED, EvCheckBalance] = (Inr u, s2, tr2)"
    using rc by (cases "reconcile env ?s1 [EvUpdateProcess ?t STARTED, EvCheckBalance]") (auto simp: outcomeOf_def)
  have s2: "hasPayload s2" "processes s2 = processes ?s1" "filter isSend tr2 = []" "filter isPendingUpdate tr2 = []"
    using rc r by simp_all
  have nt: "newTransaction env (getChainById env (fromChainId (action step))) (sendProcess env step) (entryStep env step) []
      = (Return, snd (updateProcess s2 ?t ACTION_REQUIRED id), tr2 @ [EvUpdateProcess ?t ACTION_REQUIRED])"
    using assms a2 a3 r s2 by (auto simp: newTransaction_def Let_def split_def ptype_fst_updateProcess)
  show ?thesis
    using assms a2 a3 nt s2
    by (simp add: executeStep_unfold sendPhase_def sendTry_def statusOf_def processes_updateProcess
          findProcess_patch_same)
qed

lemma gate_multichain:
  assumes "\<not> shouldContinue env"
    and "\<not> truthy (txHashOf crossProcess step)"
    and "fromTokenAddress (action step) \<noteq> AddressZero \<longrightarrow> checkAllowance env = None"
    and "balanceCheck env = None"
    and "\<not> isl (personalizeStep env)"
    and "lifiGetStepTransaction env = Inr (Some request)"
  shows "outcomeOf (execute env step) = Resolved
    \<and> statusOf crossProcess (stepOf (execute env step)) = Some ACTION_REQUIRED
    \<and> filter isSend (traceOf (execute env step)) = []
    \<and> filter isPendingUpdate (traceOf (execute env step)) = []
    \<and> last (traceOf (execute env step)) = EvUpdateProcess crossProcess ACTION_REQUIRED"
proof -
  have a2: "\<not> truthy (txHash (crossProcessAtEntry step))"
    using assms(2) by (simp add: crossProcessAtEntry_txHashOf)
  have ct: "\<And>fc tr. createTransaction env fc (crossEntryStep step) tr
      = (Return, snd (updateProcess (crossEntryStep step) crossProcess ACTION_REQUIRED id),
         tr @ [EvCheckBalance, EvPersonalizeStep, EvGetStepTransaction,
               EvUpdateProcess crossProcess ACTION_REQUIRED])"
    using assms by (cases "personalizeStep env") (simp_all add: createTransaction_def Let_def split_def)
  show ?thesis
    using assms a2 ct
    by (auto simp: execute_unfold allowancePhase_eq crossPhase_def crossTry_def obs_simps statusOf_def
          processes_updateProcess findProcess_patch_same)
qed

text \<open>With interaction disabled the blocks add no send call and no update to \<open>PENDING\<close>.\<close>

lemma reconcile_filters:
  "filter isSend (snd (snd (reconcile env step tr))) = filter isSend tr"
  "filter isPendingUpdate (snd (snd (reconcile env step tr))) = filter isPendingUpdate tr"
  by (simp_all add: reconcile_def split: option.splits sum.splits)

lemma newTransaction_gated:
  assumes "\<not> allowUserInteraction env"
  shows "filter isSend (snd (snd (newTransaction env fc proc step tr))) = filter isSend tr"
    and "filter isPendingUpdate (snd (snd (newTransaction env fc proc step tr)))
           = filter isPendingUpdate tr"
    and "fst (newTransaction env fc proc step tr) \<noteq> Go x"
  using assms
  by (simp_all add: newTransaction_def Let_def split_def reconcile_filters
        split: option.splits sum.splits)

lemma sendTry_gated:
  assumes "\<not> allowUserInteraction env"
  shows "filter isSend (snd (snd (sendTry env fc b proc step tr))) = filter isSend tr"
    and "filter isPendingUpdate (snd (snd (sendTry env fc b proc step tr)))
           = filter isPendingUpdate tr"
  by (simp_all add: sendTry_def split_def confirm_filters newTransaction_gated[OF assms]
        split: option.splits Flow.splits)

lemma sendPhase_gated:
  assumes "\<not> allowUserInteraction env"
  shows "filter isSend (snd (snd (sendPhase env fc b proc step tr))) = filter isSend tr"
    and "filter isPendingUpdate (snd (snd (sendPhase env fc b proc step tr)))
           = filter isPendingUpdate tr"
  by (simp_all add: sendPhase_def Let_def split_def sendTry_gated[OF assms] split: Flow.splits)

lemma executeStep_gated:
  assumes "\<not> allowUserInteraction env"
  shows "filter isSend (traceOf (executeStep env step)) = []
     \<and> filter isPendingUpdate (traceOf (executeStep env step)) = []"
  by (simp add: executeStep_unfold obs_simps split_def receivingPhase_filters
        sendPhase_gated[OF assms] split: Flow.splits)

lemma createTransaction_gated:
  assumes "\<not> shouldContinue env"
  shows "filter isSend (snd (snd (createTransaction env fc step tr))) = filter isSend tr"
    and "filter isPendingUpdate (snd (snd (createTransaction env fc step tr)))
           = filter isPendingUpdate tr"
    and "fst (createTransaction env fc step tr) \<noteq> Go x"
  using assms
  by (simp_all add: createTransaction_def Let_def split_def split: option.splits sum.splits)

lemma crossTry_gated:
  assumes "\<not> shouldContinue env"
  shows "filter isSend (snd (snd (crossTry env fc proc step tr))) = filter isSend tr"
    and "filter isPendingUpdate (snd (snd (crossTry env fc proc step tr)))
           = filter isPendingUpdate tr"
  by (simp_all add: crossTry_def awaitTx_def split_def createTransaction_gated[OF assms]
        split: option.splits sum.splits Flow.splits)

lemma crossPhase_gated:
  assumes "\<not> shouldContinue env"
  shows "filter isSend (snd (snd (crossPhase env fc proc step tr))) = filter isSend tr"
    and "(case fst (crossTry env fc proc step tr) of Throw e \<Rightarrow> \<not> isReplaced e | _ \<Rightarrow> True) \<Longrightarrow>
         filter isPendingUpdate (snd (snd (crossPhase env fc proc step tr)))
           = filter isPendingUpdate tr"
  by (auto simp: crossPhase_def Let_def split_def crossTry_gated[OF assms] split: Flow.splits)

lemma execute_gated:
  assumes "\<not> shouldContinue env"
  shows "filter isSend (traceOf (execute env step)) = []"
    and "\<not> replacedInTry env step \<Longrightarrow> filter isPendingUpdate (traceOf (execute env step)) = []"
proof -
  let ?a = "allowancePhase env (step\<lparr>execution := Some (initExecutionObject step)\<rparr>)"
  have t: "filter isSend (snd ?a) = []" "filter isPendingUpdate (snd ?a) = []"
    by (simp_all add: allowancePhase_eq)
  show "filter isSend (traceOf (execute env step)) = []"
    using t(1)
    by (cases ?a)
       (simp add: execute_unfold obs_simps split_def waitPhase_filters crossPhase_gated(1)[OF assms]
          split: option.splits Flow.splits)
  assume n: "\<not> replacedInTry env step"
  have c: "case fst (crossTry env (chainById env (fromChainId (action step)))
                  (crossProcessAtEntry step) (crossEntryStep step) (snd ?a)) of
             Throw e \<Rightarrow> \<not> isReplaced e | _ \<Rightarrow> True"
    using n by (simp add: replacedInTry_def sendTryRun_def obs_simps split: Flow.splits)
  show "filter isPendingUpdate (traceOf (execute env step)) = []"
    using t(2) crossPhase_gated(2)[OF assms c]
    by (cases ?a)
       (simp add: execute_unfold obs_simps split_def waitPhase_filters
          split: option.splits Flow.splits)
qed

text \<open>
  C1. As stated the claim fails: a step with no transaction hash and a payload, run
  with interaction disabled, whose balance check fails ends \<open>FAILED\<close>, not
  \<open>ACTION_REQUIRED\<close> (the counterexample below). Amended: in every invocation with
  interactive continuation disabled, whatever the step, the executor makes no send
  call of the signing agent and no update of a Process to \<open>PENDING\<close> (in the
  multichain executor the latter unless the \<open>try\<close> of the send phase ends with a
  transaction-replacement error, which its \<open>catch\<close> records with status \<open>PENDING\<close>,
  see C3). When moreover the send-phase Process is not \<open>DONE\<close> and carries no
  transaction hash, every call before the gate succeeds (the RPC connection and the
  owner key in the Solana executor, the allowance check and \<open>personalizeStep\<close> in the
  multichain executor, the balance check in both) and the payload is present after
  reconciliation, the send-phase Process is set to \<open>ACTION_REQUIRED\<close> as the last
  action of the invocation, which then returns.
\<close>

theorem halts_at_action_required:
  "(\<not> allowUserInteraction env
    \<longrightarrow> filter isSend (traceOf (executeStep env step)) = []
      \<and> filter isPendingUpdate (traceOf (executeStep env step)) = [])
   \<and> (\<not> allowUserInteraction env
      \<and> statusOf (currentProcessType env step) step \<noteq> Some DONE
      \<and> \<not> truthy (txHashOf (currentProcessType env step) step)
      \<and> getSolanaConnection env = None \<and> publicKey env \<noteq> None \<and> checkBalance env = None
      \<and> preparedPayload env step
    \<longrightarrow> outcomeOf (executeStep env step) = Resolved
      \<and> statusOf (currentProcessType env step) (stepOf (executeStep env step)) = Some ACTION_REQUIRED
      \<and> filter isSend (traceOf (executeStep env step)) = []
      \<and> filter isPendingUpdate (traceOf (executeStep env step)) = []
      \<and> last (traceOf (executeStep env step))
           = EvUpdateProcess (currentProcessType env step) ACTION_REQUIRED)
   \<and> (\<not> shouldContinue menv
    \<longrightarrow> filter isSend (traceOf (execute menv mstep)) = [])
   \<and> (\<not> shouldContinue menv \<and> \<not> replacedInTry menv mstep
    \<longrightarrow> filter isPendingUpdate (traceOf (execute menv mstep)) = [])
   \<and> (\<not> shouldContinue menv
      \<and> \<not> truthy (txHashOf crossProcess mstep)
      \<and> (fromTokenAddress (action mstep) = AddressZero \<or> checkAllowance menv = None)
      \<and> balanceCheck menv = None \<and> \<not> isl (personalizeStep menv)
      \<and> lifiGetStepTransaction menv = Inr (Some request)
    \<longrightarrow> outcomeOf (execute menv mstep) = Resolved
      \<and> statusOf crossProcess (stepOf (execute menv mstep)) = Some ACTION_REQUIRED
      \<and> filter isSend (traceOf (execute menv mstep)) = []
      \<and> filter isPendingUpdate (traceOf (execute menv mstep)) = []
      \<and> last (traceOf (execute menv mstep)) = EvUpdateProcess crossProcess ACTION_REQUIRED)"
  using gate_solana[of env step] gate_multichain[of menv mstep request]
        executeStep_gated[of env step] execute_gated[of menv mstep]
  by blast

theorem halts_at_action_required_witness:
  "\<not> allowUserInteraction (solanaEnv\<lparr>allowUserInteraction := False\<rparr>)
   \<and> \<not> truthy (txHashOf SWAP swapStep)
   \<and> preparedPayload (solanaEnv\<lparr>allowUserInteraction := False\<rparr>) swapStep
   \<and> outcomeOf (executeStep (solanaEnv\<lparr>allowUserInteraction := False\<rparr>) swapStep) = Resolved
   \<and> statusOf SWAP (stepOf (executeStep (solanaEnv\<lparr>allowUserInteraction := False\<rparr>) swapStep))
        = Some ACTION_REQUIRED
   \<and> filter isSend (traceOf (executeStep (solanaEnv\<lparr>allowUserInteraction := False\<rparr>) swapStep)) = []
   \<and> \<not> allowUserInteraction (brokeSolanaEnv\<lparr>allowUserInteraction := False\<rparr>)
   \<and> filter isSend (traceOf (executeStep (brokeSolanaEnv\<lparr>allowUserInteraction := False\<rparr>) swapStep)) = []
   \<and> filter isPendingUpdate
        (traceOf (executeStep (brokeSolanaEnv\<lparr>allowUserInteraction := False\<rparr>) swapStep)) = []
   \<and> \<not> shouldContinue haltingMultichainEnv
   \<and> \<not> replacedInTry haltingMultichainEnv tokenStep
   \<and> \<not> truthy (txHashOf crossProcess tokenStep)
   \<and> outcomeOf (execute haltingMultichainEnv tokenStep) = Resolved
   \<and> statusOf crossProcess (stepOf (execute haltingMultichainEnv tokenStep)) = Some ACTION_REQUIRED
   \<and> filter isSend (traceOf (execute haltingMultichainEnv tokenStep)) = []
   \<and> filter isPendingUpdate (traceOf (execute haltingMultichainEnv tokenStep)) = []"
proof -
  have r: "\<not> replacedInTry haltingMultichainEnv tokenStep"
    by (simp add: replacedInTry_def sendTryRun_def crossProcessAtEntry_def crossEntryStep_def
          run_defs example_defs Let_def)
  show ?thesis
    using halts_at_action_required[of "solanaEnv\<lparr>allowUserInteraction := False\<rparr>" swapStep
            haltingMultichainEnv tokenStep
            "\<lparr>data = Some ''0x1234'', txTo = Some ''0x1231'', txValue = None\<rparr>"]
          halts_at_action_required[of "brokeSolanaEnv\<lparr>allowUserInteraction := False\<rparr>" swapStep
            haltingMultichainEnv tokenStep
            "\<lparr>data = Some ''0x1234'', txTo = Some ''0x1231'', txValue = None\<rparr>"]
          r
    by (simp add: example_defs brokeSolanaEnv_def currentProcessType_def isBridgeExecution_def
          statusOf_def txHashOf_def processes_def truthy_def preparedPayload_def)
qed

theorem halts_at_action_required_counterexample:
  "\<not> allowUserInteraction (solanaEnv\<lparr>allowUserInteraction := False, checkBalance := Some insufficientFunds\<rparr>)
   \<and> \<not> truthy (txHashOf SWAP swapStep)
   \<and> hasPayload swapStep
   \<and> outcomeOf (executeStep
        (solanaEnv\<lparr>allowUserInteraction := False, checkBalance := Some insufficientFunds\<rparr>) swapStep)
        = Rejected insufficientFunds
   \<and> statusOf SWAP (stepOf (executeStep
        (solanaEnv\<lparr>allowUserInteraction := False, checkBalance := Some insufficientFunds\<rparr>) swapStep))
        = Some FAILED
   \<and> traceOf (executeStep
        (solanaEnv\<lparr>allowUserInteraction := False, checkBalance := Some insufficientFunds\<rparr>) swapStep)
        = [EvUpdateProcess SWAP STARTED, EvCheckBalance, EvUpdateProcess SWAP FAILED,
           EvUpdateExecution FAILED]"
  by (simp add: run_defs example_defs Let_def)

lemma take1_prefix: "take 1 xs = [a] \<Longrightarrow> prefix [a] xs"
  by (cases xs) auto

lemma crossPhase_resume:
  assumes "truthy (txHash proc)"
  shows "filter isBalanceCheck (snd (snd (crossPhase env fc proc step tr))) = filter isBalanceCheck tr"
    and "filter isReconcile (snd (snd (crossPhase env fc proc step tr))) = filter isReconcile tr"
    and "filter isSend (snd (snd (crossPhase env fc proc step tr))) = filter isSend tr"
    and "prefix (tr @ [EvGetTransaction (interpolate (txHash proc))]) (snd (snd (crossPhase env fc proc step tr)))"
    and "getTransaction env = Inr h \<Longrightarrow>
           prefix (tr @ [EvGetTransaction (interpolate (txHash proc)), EvTxWait h])
             (snd (snd (crossPhase env fc proc step tr)))"
  using assms
  by (auto simp: crossPhase_def crossTry_def awaitTx_def Let_def split_def
        split: sum.splits option.splits Flow.splits)

lemma resume_multichain:
  assumes "truthy (txHashOf crossProcess step)"
  shows "filter isAllowance (traceOf (execute env step)) = []
     \<and> filter isBalanceCheck (traceOf (execute env step)) = []
     \<and> filter isReconcile (traceOf (execute env step)) = []
     \<and> filter isSend (traceOf (execute env step)) = []
     \<and> prefix [EvGetTransaction (interpolate (txHashOf crossProcess step))] (traceOf (execute env step))
     \<and> (getTransaction env = Inr h \<longrightarrow>
          prefix [EvGetTransaction (interpolate (txHashOf crossProcess step)), EvTxWait h]
            (traceOf (execute env step)))"
proof -
  let ?cp = "crossPhase env (chainById env (fromChainId (action step)))
                  (crossProcessAtEntry step) (crossEntryStep step) []"
  have t: "truthy (txHash (crossProcessAtEntry step))"
    using assms by (simp add: crossProcessAtEntry_txHashOf)
  note r = crossPhase_resume[OF t, where env = env and fc = "chainById env (fromChainId (action step))"
             and step = "crossEntryStep step" and tr = "[]"]
  have w: "\<And>tc s xs. prefix xs (snd (snd ?cp)) \<Longrightarrow> prefix xs (snd (snd (waitPhase env tc s (snd (snd ?cp)))))"
    using waitPhase_prefix prefix_order.trans by blast
  show ?thesis
    using t r w
    by (auto simp: execute_unfold allowancePhase_eq obs_simps split_def waitPhase_filters
          crossPhase_allowance crossProcessAtEntry_txHashOf split: Flow.splits)
qed

lemma resume_solana:
  assumes "truthy (txHashOf (currentProcessType env step) step)"
  shows "filter isBalanceCheck (traceOf (executeStep env step)) = []
     \<and> filter isReconcile (traceOf (executeStep env step)) = []
     \<and> filter isSend (traceOf (executeStep env step)) = []
     \<and> (statusOf (currentProcessType env step) step \<noteq> Some DONE \<and> getSolanaConnection env = None \<longrightarrow>
          prefix [EvConfirmTransaction (interpolate (txHashOf (currentProcessType env step) step))]
            (traceOf (executeStep env step)))
     \<and> (statusOf (currentProcessType env step) step = Some DONE \<longrightarrow>
          filter isConfirm (traceOf (executeStep env step)) = []
          \<and> prefix [EvWaitForReceivingTransaction
                       (interpolate (txHashOf (currentProcessType env step) step))
                       (if isBridgeExecution env step then RECEIVING_CHAIN
                        else currentProcessType env step)]
               (traceOf (executeStep env step)))"
  using assms resume_solana_trace[of env step]
  by (auto simp: sendProcess_txHash sendProcess_status intro: take1_prefix)

text \<open>
  C2. As stated the claim fails: a step whose send-phase Process carries a transaction
  hash and is already \<open>DONE\<close> is not confirmed again by \<open>executeStep\<close>; the guard of
  line 55 skips the whole send phase and the executor waits for the receiving chain (the
  counterexample below). Amended: for every step whose send-phase Process carries a
  transaction hash when the executor is invoked, the invocation performs no balance
  check, no quote reconciliation and no broadcast (and, in the multichain executor, no
  allowance check). The Solana executor, once it has its RPC connection, first awaits
  the confirmation of that hash unless the Process is already \<open>DONE\<close>, in which case it
  awaits no confirmation and first waits for the receiving chain with that hash. The
  multichain executor first loads the transaction of that hash and then waits for it.
\<close>

theorem resume_skips_preparation:
  "(truthy (txHashOf (currentProcessType env step) step) \<longrightarrow>
      filter isBalanceCheck (traceOf (executeStep env step)) = []
      \<and> filter isReconcile (traceOf (executeStep env step)) = []
      \<and> filter isSend (traceOf (executeStep env step)) = []
      \<and> (statusOf (currentProcessType env step) step \<noteq> Some DONE
           \<and> getSolanaConnection env = None \<longrightarrow>
          prefix [EvConfirmTransaction (interpolate (txHashOf (currentProcessType env step) step))]
            (traceOf (executeStep env step)))
      \<and> (statusOf (currentProcessType env step) step = Some DONE \<longrightarrow>
          filter isConfirm (traceOf (executeStep env step)) = []
          \<and> prefix [EvWaitForReceivingTransaction
                       (interpolate (txHashOf (currentProcessType env step) step))
                       (if isBridgeExecution env step then RECEIVING_CHAIN
                        else currentProcessType env step)]
               (traceOf (executeStep env step))))
   \<and> (truthy (txHashOf crossProcess mstep) \<longrightarrow>
      filter isAllowance (traceOf (execute menv mstep)) = []
      \<and> filter isBalanceCheck (traceOf (execute menv mstep)) = []
      \<and> filter isReconcile (traceOf (execute menv mstep)) = []
      \<and> filter isSend (traceOf (execute menv mstep)) = []
      \<and> prefix [EvGetTransaction (interpolate (txHashOf crossProcess mstep))]
           (traceOf (execute menv mstep))
      \<and> (getTransaction menv = Inr h \<longrightarrow>
          prefix [EvGetTransaction (interpolate (txHashOf crossProcess mstep)), EvTxWait h]
            (traceOf (execute menv mstep))))"
  using resume_solana[of env step] resume_multichain[of mstep menv h] by blast

theorem resume_skips_preparation_witness:
  "truthy (txHashOf CROSS_CHAIN pendingBridgeStep)
   \<and> prefix [EvConfirmTransaction ''sig1'']
        (traceOf (executeStep solanaEnv pendingBridgeStep))
   \<and> filter isBalanceCheck
        (traceOf (executeStep solanaEnv pendingBridgeStep)) = []
   \<and> truthy (txHashOf CROSS_CHAIN doneBridgeStep)
   \<and> statusOf CROSS_CHAIN doneBridgeStep = Some DONE
   \<and> filter isConfirm (traceOf (executeStep solanaEnv doneBridgeStep)) = []
   \<and> prefix [EvWaitForReceivingTransaction ''sig1'' RECEIVING_CHAIN]
        (traceOf (executeStep solanaEnv doneBridgeStep))
   \<and> truthy (txHashOf crossProcess pendingCrossStep)
   \<and> prefix [EvGetTransaction ''0xaa'', EvTxWait ''0xaa'']
        (traceOf (execute haltingMultichainEnv pendingCrossStep))
   \<and> filter isSend (traceOf (execute haltingMultichainEnv pendingCrossStep)) = []"
  using resume_skips_preparation[of solanaEnv
          pendingBridgeStep
          pendingCrossStep haltingMultichainEnv "''0xaa''"]
        resume_skips_preparation[of solanaEnv
          doneBridgeStep
          pendingCrossStep haltingMultichainEnv "''0xaa''"]
  by (simp add: example_defs pendingBridgeStep_def doneBridgeStep_def pendingCrossStep_def
        currentProcessType_def isBridgeExecution_def statusOf_def txHashOf_def processes_def
        truthy_def interpolate_def emptyExecution_def newProcess_def)

theorem resume_skips_preparation_counterexample:
  "truthy (txHashOf CROSS_CHAIN doneBridgeStep)
   \<and> traceOf (executeStep solanaEnv doneBridgeStep)
        = [EvWaitForReceivingTransaction ''sig1'' RECEIVING_CHAIN,
           EvUpdateProcess RECEIVING_CHAIN DONE, EvUpdateExecution DONE]
   \<and> filter isConfirm (traceOf (executeStep solanaEnv doneBridgeStep)) = []"
  by (simp add: run_defs example_defs doneBridgeStep_def pendingCrossStep_def Let_def)

lemma findProcess_waitPhase:
  "findProcess crossProcess (processes (fst (snd (waitPhase env tc s tr))))
     = map_option (\<lambda>p. p\<lparr>status := DONE, pmessage := Some ''Transfer started: ''\<rparr>)
         (findProcess crossProcess (processes s))"
  by (auto simp: waitPhase_def Let_def split_def processes_updateProcess findProcess_patch_same
        findProcess_patch_other processes_findOrInsert findOrCreateProcessMsg_def newProcess_def
        findProcess_append processes_updateExecution
        split: sum.splits option.splits)

lemma crossTry_keeps:
  "(findProcess t (processes (fst (snd (crossTry env fc proc step tr)))) = None)
     = (findProcess t (processes step) = None)"
  "(execution (fst (snd (crossTry env fc proc step tr))) = None) = (execution step = None)"
  by (auto simp: crossTry_def createTransaction_def awaitTx_def Let_def split_def
        updateProcess_keeps updateProcess_execution
        split: sum.splits option.splits Flow.splits)

lemma replaced_multichain:
  assumes "fromTokenAddress (action step) = AddressZero \<or> truthy (txHashOf crossProcess step)
             \<or> checkAllowance env = None"
    and "outcomeOf (sendTryRun env step) = Throw e"
    and "isReplaced e"
  shows "prefix (traceOf (sendTryRun env step)
                   @ [EvUpdateProcess crossProcess PENDING, EvUpdateProcess crossProcess DONE,
                      EvWaitForDestinationChainReceipt (exnReplacement e)])
           (traceOf (execute env step))
     \<and> filter isConfirm (traceOf (execute env step)) = filter isConfirm (traceOf (sendTryRun env step))
     \<and> txHashOf crossProcess (stepOf (execute env step)) = exnReplacement e
     \<and> txLinkOf crossProcess (stepOf (execute env step))
          = Some (blockExplorerUrl (chainById env (fromChainId (action step))) @ ''tx/''
                    @ interpolate (exnReplacement e))
     \<and> statusOf crossProcess (stepOf (execute env step)) = Some DONE"
proof -
  let ?init = "step\<lparr>execution := Some (initExecutionObject step)\<rparr>"
  let ?fc = "chainById env (fromChainId (action step))"
  have al: "fst (allowancePhase env ?init) = None"
    using assms(1) by (auto simp: allowancePhase_eq crossProcessAtEntry_txHashOf)
  let ?tr0 = "snd (allowancePhase env ?init)"
  let ?body = "crossTry env ?fc (crossProcessAtEntry step) (crossEntryStep step) ?tr0"
  have t: "fst ?body = Throw e" using assms(2) by (simp add: sendTryRun_def obs_simps)
  have ex: "findProcess crossProcess (processes (fst (snd ?body))) \<noteq> None"
    by (simp add: crossTry_keeps)
  then obtain p where p: "findProcess crossProcess (processes (fst (snd ?body))) = Some p" by blast
  let ?patch = "\<lambda>p. p\<lparr>txHash := exnReplacement e,
                    txLink := Some (blockExplorerUrl ?fc @ ''tx/'' @ interpolate (exnReplacement e))\<rparr>"
  have cp: "crossPhase env ?fc (crossProcessAtEntry step) (crossEntryStep step) ?tr0
      = (Go (), snd (updateProcess (fst (snd ?body)) crossProcess PENDING ?patch),
         snd (snd ?body) @ [EvUpdateProcess crossProcess PENDING])"
    using t assms(3) by (simp add: crossPhase_def split_def Let_def)
  have ex': "execute env step = waitPhase env (chainById env (toChainId (action step)))
        (snd (updateProcess (fst (snd ?body)) crossProcess PENDING ?patch))
        (snd (snd ?body) @ [EvUpdateProcess crossProcess PENDING])"
    using al cp by (cases "allowancePhase env ?init") (simp add: execute_unfold)
  have tx: "txHash (fst (updateProcess (snd (updateProcess (fst (snd ?body)) crossProcess PENDING ?patch))
              crossProcess DONE (\<lambda>p. p\<lparr>pmessage := Some ''Transfer started: ''\<rparr>))) = exnReplacement e"
    using p by (simp add: fst_updateProcess processes_updateProcess findProcess_patch_same)
  have pre: "prefix (snd (snd ?body) @ [EvUpdateProcess crossProcess PENDING, EvUpdateProcess crossProcess DONE,
                      EvWaitForDestinationChainReceipt (exnReplacement e)])
           (traceOf (execute env step))"
    using tx by (simp add: ex' waitPhase_def Let_def split_def obs_simps split: sum.splits)
  have cf: "filter isConfirm (traceOf (execute env step)) = filter isConfirm (snd (snd ?body))"
    by (simp add: ex' waitPhase_def Let_def split_def obs_simps split: sum.splits)
  have fin: "findProcess crossProcess (processes (stepOf (execute env step)))
      = Some ((?patch (p\<lparr>status := PENDING\<rparr>))\<lparr>status := DONE, pmessage := Some ''Transfer started: ''\<rparr>)"
    using p by (simp add: ex' obs_simps findProcess_waitPhase processes_updateProcess findProcess_patch_same)
  show ?thesis
    using pre cf fin by (simp add: sendTryRun_def obs_simps txHashOf_def txLinkOf_def statusOf_def)
qed

text \<open>
  C3 (multichain executor). As stated the claim fails: after a transaction-replacement
  error the executor writes the replacement hash and link with status \<open>PENDING\<close> and
  marks the Process \<open>DONE\<close> at once; it waits for no confirmation of the replacement
  (the counterexample below: the only confirmation wait of the invocation is the one
  that raised the error). Amended: when the \<open>try\<close> block of the send phase ends with an
  exception whose code is \<open>TRANSACTION_REPLACED\<close> and that carries a replacement, the
  send-phase Process is updated to status \<open>PENDING\<close> with the replacement's hash and
  link and then immediately to \<open>DONE\<close>, without a further confirmation wait; the
  replacement is not treated as an error (the Process ends \<open>DONE\<close> with the
  replacement's hash and link) and the wait for the destination chain is keyed by the
  replacement hash.
\<close>

theorem replacement_not_an_error:
  assumes "fromTokenAddress (action step) = AddressZero \<or> truthy (txHashOf crossProcess step)
             \<or> checkAllowance env = None"
    and "outcomeOf (sendTryRun env step) = Throw e"
    and "isReplaced e"
  shows "prefix (traceOf (sendTryRun env step)
                   @ [EvUpdateProcess crossProcess PENDING, EvUpdateProcess crossProcess DONE,
                      EvWaitForDestinationChainReceipt (exnReplacement e)])
           (traceOf (execute env step))
     \<and> filter isConfirm (traceOf (execute env step)) = filter isConfirm (traceOf (sendTryRun env step))
     \<and> txHashOf crossProcess (stepOf (execute env step)) = exnReplacement e
     \<and> txLinkOf crossProcess (stepOf (execute env step))
          = Some (blockExplorerUrl (chainById env (fromChainId (action step))) @ ''tx/''
                    @ interpolate (exnReplacement e))
     \<and> statusOf crossProcess (stepOf (execute env step)) = Some DONE"
  using replaced_multichain[OF assms] .

theorem replacement_not_an_error_witness:
  "checkAllowance replacingMultichainEnv = None
   \<and> outcomeOf (sendTryRun replacingMultichainEnv tokenStep) = Throw replacedError
   \<and> isReplaced replacedError
   \<and> txHashOf crossProcess (stepOf (execute replacingMultichainEnv tokenStep)) = Some ''0xrep''
   \<and> txLinkOf crossProcess (stepOf (execute replacingMultichainEnv tokenStep))
        = Some ''https://explorer.example/tx/0xrep''
   \<and> statusOf crossProcess (stepOf (execute replacingMultichainEnv tokenStep)) = Some DONE"
proof -
  have h1: "fromTokenAddress (action tokenStep) = AddressZero \<or> truthy (txHashOf crossProcess tokenStep)
              \<or> checkAllowance replacingMultichainEnv = None"
    by (simp add: replacingMultichainEnv_def continuingMultichainEnv_def example_defs)
  have h2: "outcomeOf (sendTryRun replacingMultichainEnv tokenStep) = Throw replacedError"
    by (simp add: sendTryRun_def crossProcessAtEntry_def crossEntryStep_def run_defs
          replacingMultichainEnv_def continuingMultichainEnv_def replacedError_def example_defs Let_def)
  have h3: "isReplaced replacedError"
    by (simp add: isReplaced_def replacedError_def)
  show ?thesis
    using replacement_not_an_error[OF h1 h2 h3] h2 h3
    by (simp add: replacingMultichainEnv_def continuingMultichainEnv_def replacedError_def
          example_defs interpolate_def)
qed

theorem replacement_not_an_error_counterexample:
  "traceOf (execute replacingMultichainEnv tokenStep)
     = [EvCheckAllowance, EvCheckBalance, EvPersonalizeStep, EvGetStepTransaction,
        EvUpdateProcess crossProcess ACTION_REQUIRED, EvSendTransaction (Some ''0x1234''),
        EvUpdateProcess crossProcess PENDING, EvTxWait ''0xaa'',
        EvUpdateProcess crossProcess PENDING, EvUpdateProcess crossProcess DONE,
        EvWaitForDestinationChainReceipt (Some ''0xrep''), EvGetAddress, EvParseReceipt,
        EvUpdateProcess waitForTxProcess DONE, EvUpdateExecution DONE]
   \<and> filter isConfirm (traceOf (execute replacingMultichainEnv tokenStep)) = [EvTxWait ''0xaa'']"
  by (simp add: run_defs replacingMultichainEnv_def continuingMultichainEnv_def replacedError_def
        example_defs Let_def)

lemma executeStep_sendPhaseRun:
  "executeStep env step =
     (case sendPhaseRun env step of
        (Throw e, s, tr) \<Rightarrow> (Rejected e, s, tr)
      | (Return, s, tr) \<Rightarrow> (Resolved, s, tr)
      | (Go p, s, tr) \<Rightarrow>
          receivingPhase env (getChainById env (toChainId (action step))) (isBridgeExecution env step) p s tr)"
  by (simp add: executeStep_unfold sendPhaseRun_def)

lemma entryStep_other:
  "t \<noteq> currentProcessType env step \<Longrightarrow>
     findProcess t (processes (entryStep env step)) = findProcess t (processes step)"
  by (auto simp: entryStep_def findOrCreateProcess_def processes_findOrInsert findProcess_append
        newProcess_def split: option.splits)

lemma entryStep_executionStatus:
  "executionStatus (entryStep env step)
     = Some (case execution step of None \<Rightarrow> PENDING | Some e \<Rightarrow> estatus e)"
  by (cases "execution step")
     (auto simp: entryStep_def findOrCreateProcess_def findOrInsert_def executionStatus_def
        initExecutionObject_def emptyExecution_def split: option.splits)

text \<open>The send phase leaves the other Processes and the overall status as they are.\<close>

lemma customizeAndSend_other:
  "t \<noteq> ptype proc \<Longrightarrow>
     findProcess t (processes (fst (snd (customizeAndSend env fc proc step tr)))) = findProcess t (processes step)"
  "executionStatus (fst (snd (customizeAndSend env fc proc step tr))) = executionStatus step"
  by (auto simp: customizeAndSend_def Let_def split_def processes_updateProcess findProcess_patch_other
        executionStatus_updateProcess split: option.splits sum.splits)

lemma customizeAndSend_go:
  "fst (customizeAndSend env fc proc step tr) = Go (p, h) \<Longrightarrow> ptype p = ptype proc"
  by (auto simp: customizeAndSend_def Let_def split_def ptype_fst_updateProcess
        split: option.splits sum.splits if_splits)

lemma reconcile_executionStatus:
  "executionStatus (fst (snd (reconcile env step tr))) = executionStatus step"
  by (simp add: executionStatus_def reconcile_frame)

lemma newTransaction_other:
  "t \<noteq> ptype proc \<Longrightarrow>
     findProcess t (processes (fst (snd (newTransaction env fc proc step tr)))) = findProcess t (processes step)"
  "executionStatus (fst (snd (newTransaction env fc proc step tr))) = executionStatus step"
  by (auto simp: newTransaction_def Let_def split_def processes_updateProcess findProcess_patch_other
        executionStatus_updateProcess customizeAndSend_other reconcile_frame ptype_fst_updateProcess
        reconcile_executionStatus
        split: option.splits sum.splits)

lemma newTransaction_go:
  "fst (newTransaction env fc proc step tr) = Go (p, h) \<Longrightarrow> ptype p = ptype proc"
  by (auto simp: newTransaction_def Let_def split_def ptype_fst_updateProcess
        split: option.splits sum.splits if_splits dest!: customizeAndSend_go)

lemma confirm_other:
  "t \<noteq> ptype proc \<Longrightarrow>
     findProcess t (processes (fst (snd (confirm env b proc h step tr)))) = findProcess t (processes step)"
  "executionStatus (fst (snd (confirm env b proc h step tr))) = executionStatus step"
  by (auto simp: confirm_def Let_def split_def processes_updateProcess findProcess_patch_other
        executionStatus_updateProcess split: option.splits sum.splits)

lemma confirm_go:
  "fst (confirm env b proc h step tr) = Go p \<Longrightarrow> ptype p = ptype proc"
  by (auto simp: confirm_def Let_def split_def ptype_fst_updateProcess
        split: option.splits sum.splits if_splits)

lemma confirm_go_bridge:
  "fst (confirm env True proc h step tr) = Go p \<Longrightarrow> findProcess (ptype proc) (processes step) \<noteq> None \<Longrightarrow>
     statusOf (ptype proc) (fst (snd (confirm env True proc h step tr))) = Some DONE"
  by (auto simp: confirm_def Let_def split_def statusOf_updateProcess_same
        split: option.splits sum.splits if_splits)

lemma sendTry_cases:
  obtains (conn) e where "getSolanaConnection env = Some e"
      "sendTry env fc b proc step tr = (Throw e, step, tr)"
    | (resume) "getSolanaConnection env = None" "truthy (txHash proc)"
      "sendTry env fc b proc step tr = confirm env b proc (interpolate (txHash proc)) step tr"
    | (throw) e where "getSolanaConnection env = None" "\<not> truthy (txHash proc)"
      "fst (newTransaction env fc proc step tr) = Throw e"
      "sendTry env fc b proc step tr
         = (Throw e, fst (snd (newTransaction env fc proc step tr)), snd (snd (newTransaction env fc proc step tr)))"
    | (return) "getSolanaConnection env = None" "\<not> truthy (txHash proc)"
      "fst (newTransaction env fc proc step tr) = Return"
      "sendTry env fc b proc step tr
         = (Return, fst (snd (newTransaction env fc proc step tr)), snd (snd (newTransaction env fc proc step tr)))"
    | (sent) p h where "getSolanaConnection env = None" "\<not> truthy (txHash proc)"
      "fst (newTransaction env fc proc step tr) = Go (p, h)"
      "sendTry env fc b proc step tr
         = confirm env b p h (fst (snd (newTransaction env fc proc step tr)))
             (snd (snd (newTransaction env fc proc step tr)))"
proof (cases "getSolanaConnection env")
  case (Some e)
  then show ?thesis using conn by (simp add: sendTry_def)
next
  case None
  show ?thesis
  proof (cases "truthy (txHash proc)")
    case True
    then show ?thesis using None resume by (simp add: sendTry_def)
  next
    case False
    show ?thesis
    proof (cases "fst (newTransaction env fc proc step tr)")
      case (Throw e)
      then show ?thesis using None False throw[of e] by (simp add: sendTry_def split_def)
    next
      case Return
      then show ?thesis using None False return by (simp add: sendTry_def split_def)
    next
      case (Go ph)
      then show ?thesis using None False sent[of "fst ph" "snd ph"] by (simp add: sendTry_def split_def)
    qed
  qed
qed

lemma sendTry_other:
  assumes "t \<noteq> ptype proc"
  shows "findProcess t (processes (fst (snd (sendTry env fc b proc step tr)))) = findProcess t (processes step)"
proof (cases rule: sendTry_cases[of env fc b proc step tr])
  case (sent p h)
  then show ?thesis using assms newTransaction_go[OF sent(3)]
    by (simp add: confirm_other newTransaction_other)
qed (simp_all add: assms confirm_other newTransaction_other)

lemma sendTry_executionStatus:
  "executionStatus (fst (snd (sendTry env fc b proc step tr))) = executionStatus step"
  by (cases rule: sendTry_cases[of env fc b proc step tr])
     (simp_all add: confirm_other newTransaction_other)

lemma sendTry_go:
  assumes "fst (sendTry env fc b proc step tr) = Go p"
  shows "ptype p = ptype proc"
proof (cases rule: sendTry_cases[of env fc b proc step tr])
  case (sent p' h)
  then show ?thesis using assms newTransaction_go[OF sent(3)] confirm_go by fastforce
next
  case resume
  then show ?thesis using assms confirm_go by fastforce
qed (use assms in simp_all)

lemma sendTry_go_bridge:
  assumes "fst (sendTry env fc True proc step tr) = Go p"
    and "findProcess (ptype proc) (processes step) \<noteq> None"
  shows "statusOf (ptype proc) (fst (snd (sendTry env fc True proc step tr))) = Some DONE"
proof (cases rule: sendTry_cases[of env fc True proc step tr])
  case (sent p' h)
  have pt: "ptype p' = ptype proc" using newTransaction_go[OF sent(3)] .
  have ex: "findProcess (ptype p') (processes (fst (snd (newTransaction env fc proc step tr)))) \<noteq> None"
    using assms(2) pt by (simp add: newTransaction_keeps)
  show ?thesis
    using assms(1) sent(4) confirm_go_bridge[OF _ ex, of env h "snd (snd (newTransaction env fc proc step tr))" p] pt
    by simp
next
  case resume
  then show ?thesis using assms confirm_go_bridge[of env proc "interpolate (txHash proc)" step tr p] by simp
qed (use assms in simp_all)

lemma updateProcess_keeps_Some:
  "(\<And>p. ptype (f p) = ptype p) \<Longrightarrow>
     (\<exists>y. findProcess t (processes (snd (updateProcess step t' s f))) = Some y)
       = (\<exists>y. findProcess t (processes step) = Some y)"
  using updateProcess_keeps[of f t step t' s] by (metis not_None_eq)

lemma sendPhase_go_cases [consumes 1, case_names skipped ran]:
  assumes "fst (sendPhase env fc b proc step tr) = Go p"
  obtains (skipped) "status proc = DONE" "p = proc" "sendPhase env fc b proc step tr = (Go proc, step, tr)"
    | (ran) "status proc \<noteq> DONE" "sendPhase env fc b proc step tr = sendTry env fc b proc step tr"
        "fst (sendTry env fc b proc step tr) = Go p"
  using assms
  by (cases "status proc = DONE"; cases "sendTry env fc b proc step tr";
      cases "fst (sendTry env fc b proc step tr)")
     (auto simp: sendPhase_def Let_def split_def split: Flow.splits)

lemma sendPhase_go:
  assumes "fst (sendPhase env fc b proc step tr) = Go p"
  shows "ptype p = ptype proc"
    and "(findProcess t (processes (fst (snd (sendPhase env fc b proc step tr)))) = None)
           = (findProcess t (processes step) = None)"
    and "(execution (fst (snd (sendPhase env fc b proc step tr))) = None) = (execution step = None)"
    and "executionStatus (fst (snd (sendPhase env fc b proc step tr))) = executionStatus step"
    and "t \<noteq> ptype proc \<Longrightarrow>
           findProcess t (processes (fst (snd (sendPhase env fc b proc step tr)))) = findProcess t (processes step)"
  using assms
  by (cases rule: sendPhase_go_cases;
      simp add: sendTry_go sendTry_keeps sendTry_executionStatus sendTry_other)+

lemma sendPhase_go_bridge:
  assumes "fst (sendPhase env fc True proc step tr) = Go p"
    and "findProcess (ptype proc) (processes step) = Some proc"
  shows "statusOf (ptype proc) (fst (snd (sendPhase env fc True proc step tr))) = Some DONE"
  using assms(1)
proof (cases rule: sendPhase_go_cases)
  case skipped
  then show ?thesis using assms(2) by (simp add: statusOf_def)
next
  case ran
  then show ?thesis using assms(2) sendTry_go_bridge[OF ran(3)] by simp
qed

text \<open>The receiving phase.\<close>

lemma receivingPhase_single:
  assumes "truthy (txHash p)" "findProcess (ptype p) (processes s) \<noteq> None" "execution s \<noteq> None"
  shows "prefix (tr @ [EvWaitForReceivingTransaction (interpolate (txHash p)) (ptype p)])
           (snd (snd (receivingPhase env tc False p s tr)))"
    and "t \<noteq> ptype p \<Longrightarrow>
           findProcess t (processes (fst (snd (receivingPhase env tc False p s tr)))) = findProcess t (processes s)"
    and "\<not> isl (waitForReceivingTransaction env) \<Longrightarrow>
           fst (receivingPhase env tc False p s tr) = Resolved
           \<and> statusOf (ptype p) (fst (snd (receivingPhase env tc False p s tr))) = Some DONE
           \<and> executionStatus (fst (snd (receivingPhase env tc False p s tr))) = Some DONE
           \<and> snd (snd (receivingPhase env tc False p s tr))
                = tr @ [EvWaitForReceivingTransaction (interpolate (txHash p)) (ptype p),
                        EvUpdateProcess (ptype p) DONE, EvUpdateExecution DONE]"
    and "waitForReceivingTransaction env = Inl e \<Longrightarrow>
         \<not> isl (getTransactionFailedMessage env (txLink p)) \<Longrightarrow>
           fst (receivingPhase env tc False p s tr) = Rejected e
           \<and> statusOf (ptype p) (fst (snd (receivingPhase env tc False p s tr))) = Some FAILED
           \<and> executionStatus (fst (snd (receivingPhase env tc False p s tr))) = Some FAILED
           \<and> snd (snd (receivingPhase env tc False p s tr))
                = tr @ [EvWaitForReceivingTransaction (interpolate (txHash p)) (ptype p),
                        EvUpdateProcess (ptype p) FAILED, EvUpdateExecution FAILED]"
  using assms
  by (auto simp: receivingPhase_def receivingFailed_def Let_def split_def
        processes_updateProcess processes_updateExecution findProcess_patch_other
        statusOf_updateExecution statusOf_updateProcess_same
        executionStatus_updateExecution updateProcess_execution
        split: sum.splits)

lemma receivingPhase_bridge:
  assumes "execution s \<noteq> None"
  shows "statusOf RECEIVING_CHAIN (fst (snd (receivingPhase env tc True p s tr))) \<noteq> None"
    and "t \<noteq> RECEIVING_CHAIN \<Longrightarrow>
           findProcess t (processes (fst (snd (receivingPhase env tc True p s tr)))) = findProcess t (processes s)"
    and "truthy (txHash p) \<Longrightarrow>
           prefix (tr @ [EvWaitForReceivingTransaction (interpolate (txHash p)) RECEIVING_CHAIN])
             (snd (snd (receivingPhase env tc True p s tr)))"
proof -
  let ?f = "findOrCreateProcess s RECEIVING_CHAIN PENDING"
  have pt: "ptype (fst ?f) = RECEIVING_CHAIN"
    by (auto simp: findOrCreateProcess_def fst_findOrInsert newProcess_def split: option.splits
          dest: findProcess_ptype)
  have ex: "findProcess RECEIVING_CHAIN (processes (snd ?f)) \<noteq> None"
    using assms
    by (auto simp: findOrCreateProcess_def processes_findOrInsert findProcess_append newProcess_def
          split: option.splits)
  have ot: "\<And>t. t \<noteq> RECEIVING_CHAIN \<Longrightarrow> findProcess t (processes (snd ?f)) = findProcess t (processes s)"
    by (auto simp: findOrCreateProcess_def processes_findOrInsert findProcess_append newProcess_def
          split: option.splits)
  show "statusOf RECEIVING_CHAIN (fst (snd (receivingPhase env tc True p s tr))) \<noteq> None"
    using pt ex
    by (auto simp: receivingPhase_def receivingFailed_def Let_def split_def statusOf_def
          processes_updateExecution updateProcess_keeps_Some split: sum.splits)
  show "t \<noteq> RECEIVING_CHAIN \<Longrightarrow>
           findProcess t (processes (fst (snd (receivingPhase env tc True p s tr)))) = findProcess t (processes s)"
    using pt ot
    by (auto simp: receivingPhase_def receivingFailed_def Let_def split_def
          processes_updateExecution processes_updateProcess findProcess_patch_other split: sum.splits)
  show "truthy (txHash p) \<Longrightarrow>
           prefix (tr @ [EvWaitForReceivingTransaction (interpolate (txHash p)) RECEIVING_CHAIN])
             (snd (snd (receivingPhase env tc True p s tr)))"
    using pt
    by (auto simp: receivingPhase_def receivingFailed_def Let_def split_def split: sum.splits)
qed

lemma sendPhaseRun_entry:
  assumes "outcomeOf (sendPhaseRun env step) = Go p"
  shows "ptype p = currentProcessType env step"
    and "findProcess (currentProcessType env step) (processes (stepOf (sendPhaseRun env step))) \<noteq> None"
    and "execution (stepOf (sendPhaseRun env step)) \<noteq> None"
    and "executionStatus (stepOf (sendPhaseRun env step))
           = Some (case execution step of None \<Rightarrow> PENDING | Some e \<Rightarrow> estatus e)"
    and "t \<noteq> currentProcessType env step \<Longrightarrow>
           findProcess t (processes (stepOf (sendPhaseRun env step))) = findProcess t (processes step)"
proof -
  have g: "fst (sendPhase env (getChainById env (fromChainId (action step))) (isBridgeExecution env step)
       (sendProcess env step) (entryStep env step) []) = Go p"
    using assms by (simp add: sendPhaseRun_def obs_simps)
  note f = sendPhase_go[OF g]
  show "ptype p = currentProcessType env step" using f(1) by simp
  show "findProcess (currentProcessType env step) (processes (stepOf (sendPhaseRun env step))) \<noteq> None"
    using f(2)[of "currentProcessType env step"] by (simp add: sendPhaseRun_def obs_simps)
  show "execution (stepOf (sendPhaseRun env step)) \<noteq> None"
    using f(3) by (simp add: sendPhaseRun_def obs_simps)
  show "executionStatus (stepOf (sendPhaseRun env step))
           = Some (case execution step of None \<Rightarrow> PENDING | Some e \<Rightarrow> estatus e)"
    using f(4) by (simp add: sendPhaseRun_def obs_simps entryStep_executionStatus)
  show "t \<noteq> currentProcessType env step \<Longrightarrow>
           findProcess t (processes (stepOf (sendPhaseRun env step))) = findProcess t (processes step)"
    using f(5)[of t] by (simp add: sendPhaseRun_def obs_simps entryStep_other)
qed

lemma executeStep_go:
  assumes "outcomeOf (sendPhaseRun env step) = Go p"
  shows "executeStep env step =
     receivingPhase env (getChainById env (toChainId (action step))) (isBridgeExecution env step) p
       (stepOf (sendPhaseRun env step)) (traceOf (sendPhaseRun env step))"
  using assms by (cases "sendPhaseRun env step") (simp add: executeStep_sendPhaseRun obs_simps)

lemma newTransaction_checked:
  assumes "publicKey env \<noteq> None" "checkBalance env = None"
  shows "newTransaction env fc proc step tr =
     (let s1 = snd (updateProcess step (ptype proc) STARTED id);
          r = reconcile env s1 (tr @ [EvUpdateProcess (ptype proc) STARTED, EvCheckBalance])
      in case fst r of
           Inl e \<Rightarrow> (Throw e, snd r)
         | Inr u \<Rightarrow>
             if \<not> hasPayload (fst (snd r)) then (Throw unprepared, snd r)
             else if \<not> allowUserInteraction env
             then (Return, snd (updateProcess (fst (snd r)) (ptype proc) ACTION_REQUIRED id),
                   snd (snd r) @ [EvUpdateProcess (ptype proc) ACTION_REQUIRED])
             else customizeAndSend env fc
                    (fst (updateProcess (fst (snd r)) (ptype proc) ACTION_REQUIRED id))
                    (snd (updateProcess (fst (snd r)) (ptype proc) ACTION_REQUIRED id))
                    (snd (snd r) @ [EvUpdateProcess (ptype proc) ACTION_REQUIRED]))"
  using assms
  by (cases "publicKey env")
     (simp_all add: newTransaction_def Let_def split_def ptype_fst_updateProcess split: sum.splits)

text \<open>A single-chain send phase never marks a Process \<open>DONE\<close>.\<close>

lemma reconcile_done_filter:
  "filter isDoneUpdate (snd (snd (reconcile env step tr))) = filter isDoneUpdate tr"
  by (simp add: reconcile_def split: option.splits sum.splits)

lemma customizeAndSend_done_filter:
  "filter isDoneUpdate (snd (snd (customizeAndSend env fc proc step tr))) = filter isDoneUpdate tr"
  by (simp add: customizeAndSend_def Let_def split_def split: option.splits sum.splits)

lemma newTransaction_done_filter:
  "filter isDoneUpdate (snd (snd (newTransaction env fc proc step tr))) = filter isDoneUpdate tr"
  by (simp add: newTransaction_def Let_def split_def reconcile_done_filter
        customizeAndSend_done_filter split: option.splits sum.splits)

lemma confirm_single:
  "filter isDoneUpdate (snd (snd (confirm env False proc h step tr))) = filter isDoneUpdate tr"
  "fst (snd (confirm env False proc h step tr)) = step"
  by (simp_all add: confirm_def split: sum.splits)

lemma sendTry_single_done_filter:
  "filter isDoneUpdate (snd (snd (sendTry env fc False proc step tr))) = filter isDoneUpdate tr"
  by (cases rule: sendTry_cases[of env fc False proc step tr])
     (simp_all add: confirm_single newTransaction_done_filter)

lemma sendPhase_single_done_filter:
  "filter isDoneUpdate (snd (snd (sendPhase env fc False proc step tr))) = filter isDoneUpdate tr"
  by (cases "fst (sendTry env fc False proc step tr)")
     (simp_all add: sendPhase_def Let_def split_def sendTry_single_done_filter)

lemma customizeAndSend_go_status:
  assumes "fst (customizeAndSend env fc proc step tr) = Go (p, h)"
    and "findProcess (ptype proc) (processes step) \<noteq> None"
  shows "statusOf (ptype proc) (fst (snd (customizeAndSend env fc proc step tr))) = Some PENDING"
  using assms
  by (auto simp: customizeAndSend_def Let_def split_def statusOf_updateProcess_same
        split: option.splits sum.splits if_splits)

lemma newTransaction_go_status:
  assumes "fst (newTransaction env fc proc step tr) = Go (p, h)"
    and "findProcess (ptype proc) (processes step) \<noteq> None"
  shows "statusOf (ptype proc) (fst (snd (newTransaction env fc proc step tr))) = Some PENDING"
proof -
  have pk: "publicKey env \<noteq> None" "checkBalance env = None"
    using assms(1) by (auto simp: newTransaction_def Let_def split_def split: option.splits)
  let ?r = "reconcile env (snd (updateProcess step (ptype proc) STARTED id))
              (tr @ [EvUpdateProcess (ptype proc) STARTED, EvCheckBalance])"
  let ?u = "updateProcess (fst (snd ?r)) (ptype proc) ACTION_REQUIRED id"
  have c: "newTransaction env fc proc step tr
             = customizeAndSend env fc (fst ?u) (snd ?u)
                 (snd (snd ?r) @ [EvUpdateProcess (ptype proc) ACTION_REQUIRED])"
    using assms(1)
    by (simp add: newTransaction_checked[OF pk] Let_def split: sum.splits if_splits)
  have pt: "ptype (fst ?u) = ptype proc" by (simp add: ptype_fst_updateProcess)
  have ex: "findProcess (ptype (fst ?u)) (processes (snd ?u)) \<noteq> None"
    using assms(2) by (simp add: pt updateProcess_keeps reconcile_frame)
  show ?thesis
    using customizeAndSend_go_status[OF assms(1)[unfolded c] ex] by (simp add: c pt)
qed

lemma sendPhase_single_status:
  assumes "fst (sendPhase env fc False proc step tr) = Go p"
    and "status proc \<noteq> DONE"
    and "findProcess (ptype proc) (processes step) = Some proc"
  shows "statusOf (ptype proc) (fst (snd (sendPhase env fc False proc step tr))) \<noteq> Some DONE"
  using assms(1)
proof (cases rule: sendPhase_go_cases)
  case skipped
  then show ?thesis using assms(2) by simp
next
  case ran
  show ?thesis
  proof (cases rule: sendTry_cases[of env fc False proc step tr])
    case (sent p' h)
    have pt: "ptype p' = ptype proc" using newTransaction_go[OF sent(3)] .
    have "statusOf (ptype proc) (fst (snd (newTransaction env fc proc step tr))) = Some PENDING"
      using newTransaction_go_status[OF sent(3)] assms(3) by simp
    then show ?thesis by (simp add: ran(2) sent(4) confirm_single)
  next
    case resume
    then show ?thesis using assms(2,3) by (simp add: ran(2) confirm_single statusOf_def)
  qed (use ran(3) in simp_all)
qed

lemma single_chain:
  assumes "\<not> isBridgeExecution env step"
    and "outcomeOf (sendPhaseRun env step) = Go p"
    and "truthy (txHash p)"
  shows "filter isDoneUpdate (traceOf (sendPhaseRun env step)) = []
     \<and> (statusOf SWAP step \<noteq> Some DONE \<longrightarrow>
          statusOf SWAP (stepOf (sendPhaseRun env step)) \<noteq> Some DONE)
     \<and> prefix (traceOf (sendPhaseRun env step)
                   @ [EvWaitForReceivingTransaction (interpolate (txHash p)) SWAP])
           (traceOf (executeStep env step))
     \<and> statusOf RECEIVING_CHAIN (stepOf (executeStep env step)) = statusOf RECEIVING_CHAIN step
     \<and> (\<not> isl (waitForReceivingTransaction env) \<longrightarrow>
          outcomeOf (executeStep env step) = Resolved
          \<and> statusOf SWAP (stepOf (executeStep env step)) = Some DONE
          \<and> executionStatus (stepOf (executeStep env step)) = Some DONE
          \<and> traceOf (executeStep env step)
               = traceOf (sendPhaseRun env step)
                   @ [EvWaitForReceivingTransaction (interpolate (txHash p)) SWAP,
                      EvUpdateProcess SWAP DONE, EvUpdateExecution DONE])
     \<and> (waitForReceivingTransaction env = Inl e
          \<and> \<not> isl (getTransactionFailedMessage env (txLink p)) \<longrightarrow>
          outcomeOf (executeStep env step) = Rejected e
          \<and> statusOf SWAP (stepOf (executeStep env step)) = Some FAILED
          \<and> executionStatus (stepOf (executeStep env step)) = Some FAILED
          \<and> traceOf (executeStep env step)
               = traceOf (sendPhaseRun env step)
                   @ [EvWaitForReceivingTransaction (interpolate (txHash p)) SWAP,
                      EvUpdateProcess SWAP FAILED, EvUpdateExecution FAILED])"
proof -
  have t: "currentProcessType env step = SWAP" using assms(1) by (simp add: currentProcessType_def)
  note e = sendPhaseRun_entry[OF assms(2), unfolded t]
  have ex: "findProcess (ptype p) (processes (stepOf (sendPhaseRun env step))) \<noteq> None"
    using e(1) e(2) by simp
  note r = receivingPhase_single[OF assms(3) ex e(3), where env = env
             and tc = "getChainById env (toChainId (action step))"
             and tr = "traceOf (sendPhaseRun env step)"]
  have g: "fst (sendPhase env (getChainById env (fromChainId (action step))) False
       (sendProcess env step) (entryStep env step) []) = Go p"
    using assms(1,2) by (simp add: sendPhaseRun_def obs_simps)
  have d: "filter isDoneUpdate (traceOf (sendPhaseRun env step)) = []"
    using assms(1) by (simp add: sendPhaseRun_def obs_simps sendPhase_single_done_filter)
  have n: "statusOf SWAP step \<noteq> Some DONE \<longrightarrow>
          statusOf SWAP (stepOf (sendPhaseRun env step)) \<noteq> Some DONE"
  proof
    assume "statusOf SWAP step \<noteq> Some DONE"
    then have nd: "status (sendProcess env step) \<noteq> DONE" using t by (simp add: sendProcess_status)
    have f: "findProcess (ptype (sendProcess env step)) (processes (entryStep env step))
               = Some (sendProcess env step)" by simp
    show "statusOf SWAP (stepOf (sendPhaseRun env step)) \<noteq> Some DONE"
      using sendPhase_single_status[OF g nd f] assms(1) t by (simp add: sendPhaseRun_def obs_simps)
  qed
  have m: "prefix (traceOf (sendPhaseRun env step)
                   @ [EvWaitForReceivingTransaction (interpolate (txHash p)) SWAP])
           (traceOf (executeStep env step))
     \<and> statusOf RECEIVING_CHAIN (stepOf (executeStep env step)) = statusOf RECEIVING_CHAIN step"
    using r(1) r(2)[of RECEIVING_CHAIN] e(1) e(5)[of RECEIVING_CHAIN] assms(1)
    by (simp add: executeStep_go[OF assms(2)] obs_simps statusOf_def)
  have ok: "\<not> isl (waitForReceivingTransaction env) \<longrightarrow>
          outcomeOf (executeStep env step) = Resolved
          \<and> statusOf SWAP (stepOf (executeStep env step)) = Some DONE
          \<and> executionStatus (stepOf (executeStep env step)) = Some DONE
          \<and> traceOf (executeStep env step)
               = traceOf (sendPhaseRun env step)
                   @ [EvWaitForReceivingTransaction (interpolate (txHash p)) SWAP,
                      EvUpdateProcess SWAP DONE, EvUpdateExecution DONE]"
    using r(3) e(1) assms(1) by (simp add: executeStep_go[OF assms(2)] obs_simps)
  have ko: "waitForReceivingTransaction env = Inl e
          \<and> \<not> isl (getTransactionFailedMessage env (txLink p)) \<longrightarrow>
          outcomeOf (executeStep env step) = Rejected e
          \<and> statusOf SWAP (stepOf (executeStep env step)) = Some FAILED
          \<and> executionStatus (stepOf (executeStep env step)) = Some FAILED
          \<and> traceOf (executeStep env step)
               = traceOf (sendPhaseRun env step)
                   @ [EvWaitForReceivingTransaction (interpolate (txHash p)) SWAP,
                      EvUpdateProcess SWAP FAILED, EvUpdateExecution FAILED]"
    using r(4)[of e] e(1) assms(1) by (simp add: executeStep_go[OF assms(2)] obs_simps)
  show ?thesis using d n m ok ko by blast
qed

lemma confirm_bridge_last:
  "fst (confirm env True proc h step tr) = Go p \<Longrightarrow>
     last (snd (snd (confirm env True proc h step tr))) = EvUpdateProcess (ptype proc) DONE"
  by (auto simp: confirm_def Let_def split_def split: sum.splits if_splits)

lemma sendPhase_bridge_last:
  assumes "fst (sendPhase env fc True proc step tr) = Go p" and "status proc \<noteq> DONE"
  shows "last (snd (snd (sendPhase env fc True proc step tr))) = EvUpdateProcess (ptype proc) DONE"
  using assms(1)
proof (cases rule: sendPhase_go_cases)
  case skipped
  then show ?thesis using assms(2) by simp
next
  case ran
  show ?thesis
  proof (cases rule: sendTry_cases[of env fc True proc step tr])
    case (sent p' h)
    have pt: "ptype p' = ptype proc" using newTransaction_go[OF sent(3)] .
    show ?thesis
      using confirm_bridge_last[of env p' h "fst (snd (newTransaction env fc proc step tr))"
              "snd (snd (newTransaction env fc proc step tr))" p] ran(3) pt
      by (simp add: ran(2) sent(4))
  next
    case resume
    then show ?thesis
      using confirm_bridge_last[of env proc "interpolate (txHash proc)" step tr p] ran(3)
      by (simp add: ran(2))
  qed (use ran(3) in simp_all)
qed

lemma cross_chain:
  assumes "isBridgeExecution env step"
    and "outcomeOf (sendPhaseRun env step) = Go p"
  shows "statusOf CROSS_CHAIN (stepOf (sendPhaseRun env step)) = Some DONE
     \<and> (statusOf CROSS_CHAIN step \<noteq> Some DONE \<longrightarrow>
          last (traceOf (sendPhaseRun env step)) = EvUpdateProcess CROSS_CHAIN DONE)
     \<and> executionStatus (stepOf (sendPhaseRun env step))
          = Some (case execution step of None \<Rightarrow> PENDING | Some e \<Rightarrow> estatus e)
     \<and> statusOf RECEIVING_CHAIN (stepOf (executeStep env step)) \<noteq> None
     \<and> (truthy (txHash p) \<longrightarrow>
          prefix (traceOf (sendPhaseRun env step)
                    @ [EvWaitForReceivingTransaction (interpolate (txHash p)) RECEIVING_CHAIN])
            (traceOf (executeStep env step)))"
proof -
  have t: "currentProcessType env step = CROSS_CHAIN" using assms(1) by (simp add: currentProcessType_def)
  note e = sendPhaseRun_entry[OF assms(2), unfolded t]
  have g: "fst (sendPhase env (getChainById env (fromChainId (action step))) True
       (sendProcess env step) (entryStep env step) []) = Go p"
    using assms by (simp add: sendPhaseRun_def obs_simps)
  have d: "statusOf CROSS_CHAIN (stepOf (sendPhaseRun env step)) = Some DONE"
    using sendPhase_go_bridge[OF g] t assms(1) entryStep_find[of env step]
    by (simp add: sendPhaseRun_def obs_simps)
  have l: "statusOf CROSS_CHAIN step \<noteq> Some DONE \<longrightarrow>
          last (traceOf (sendPhaseRun env step)) = EvUpdateProcess CROSS_CHAIN DONE"
  proof
    assume "statusOf CROSS_CHAIN step \<noteq> Some DONE"
    then have nd: "status (sendProcess env step) \<noteq> DONE" using t by (simp add: sendProcess_status)
    show "last (traceOf (sendPhaseRun env step)) = EvUpdateProcess CROSS_CHAIN DONE"
      using sendPhase_bridge_last[OF g nd] assms(1) t by (simp add: sendPhaseRun_def obs_simps)
  qed
  note r = receivingPhase_bridge[OF e(3), where env = env
             and tc = "getChainById env (toChainId (action step))" and p = p
             and tr = "traceOf (sendPhaseRun env step)"]
  show ?thesis
    using d l e(4) r(1) r(3) assms(1)
    by (simp add: executeStep_go[OF assms(2)] obs_simps)
qed




lemma sendPhase_throw:
  assumes "status proc \<noteq> DONE"
    and "fst (sendTry env fc b proc step tr) = Throw e0"
    and "findProcess (ptype proc) (processes step) \<noteq> None"
    and "execution step \<noteq> None"
  shows "fst (sendPhase env fc b proc step tr) = Throw (parseError env e0)"
    and "statusOf (ptype proc) (fst (snd (sendPhase env fc b proc step tr))) = Some FAILED"
    and "errorOf (ptype proc) (fst (snd (sendPhase env fc b proc step tr)))
           = Some (errorInfoOf (parseError env e0))"
    and "executionStatus (fst (snd (sendPhase env fc b proc step tr))) = Some FAILED"
    and "snd (snd (sendPhase env fc b proc step tr))
           = snd (snd (sendTry env fc b proc step tr))
               @ [EvUpdateProcess (ptype proc) FAILED, EvUpdateExecution FAILED]"
proof -
  let ?s = "fst (snd (sendTry env fc b proc step tr))"
  have ex: "findProcess (ptype proc) (processes ?s) \<noteq> None" "execution ?s \<noteq> None"
    using assms(3,4) by (simp_all add: sendTry_keeps)
  then obtain q where q: "findProcess (ptype proc) (processes ?s) = Some q" by blast
  show "fst (sendPhase env fc b proc step tr) = Throw (parseError env e0)"
    using assms(1,2) by (simp add: sendPhase_def Let_def split_def)
  show "statusOf (ptype proc) (fst (snd (sendPhase env fc b proc step tr))) = Some FAILED"
    using assms(1,2) ex
    by (simp add: sendPhase_def Let_def split_def statusOf_updateExecution statusOf_updateProcess_same)
  show "errorOf (ptype proc) (fst (snd (sendPhase env fc b proc step tr)))
           = Some (errorInfoOf (parseError env e0))"
    using assms(1,2) q
    by (simp add: sendPhase_def Let_def split_def errorOf_def processes_updateExecution
          processes_updateProcess findProcess_patch_same)
  show "executionStatus (fst (snd (sendPhase env fc b proc step tr))) = Some FAILED"
    using assms(1,2) ex
    by (simp add: sendPhase_def Let_def split_def executionStatus_updateExecution updateProcess_execution)
  show "snd (snd (sendPhase env fc b proc step tr))
           = snd (snd (sendTry env fc b proc step tr))
               @ [EvUpdateProcess (ptype proc) FAILED, EvUpdateExecution FAILED]"
    using assms(1,2) by (simp add: sendPhase_def Let_def split_def)
qed

lemma executeStep_send_failure:
  assumes "statusOf (currentProcessType env step) step \<noteq> Some DONE"
    and "outcomeOf (sendTryRunSolana env step) = Throw e0"
  shows "outcomeOf (executeStep env step) = Rejected (parseError env e0)"
    and "statusOf (currentProcessType env step) (stepOf (executeStep env step)) = Some FAILED"
    and "errorOf (currentProcessType env step) (stepOf (executeStep env step))
           = Some (errorInfoOf (parseError env e0))"
    and "executionStatus (stepOf (executeStep env step)) = Some FAILED"
    and "traceOf (executeStep env step)
           = traceOf (sendTryRunSolana env step)
               @ [EvUpdateProcess (currentProcessType env step) FAILED, EvUpdateExecution FAILED]"
proof -
  let ?fc = "getChainById env (fromChainId (action step))"
  let ?b = "isBridgeExecution env step"
  have nd: "status (sendProcess env step) \<noteq> DONE" using assms(1) by (simp add: sendProcess_status)
  have th: "fst (sendTry env ?fc ?b (sendProcess env step) (entryStep env step) []) = Throw e0"
    using assms(2) by (simp add: sendTryRunSolana_def obs_simps)
  have ex: "findProcess (ptype (sendProcess env step)) (processes (entryStep env step)) \<noteq> None"
    by simp
  note t = sendPhase_throw[OF nd th ex entryStep_execution]
  have e: "executeStep env step =
      (Rejected (parseError env e0),
       fst (snd (sendPhase env ?fc ?b (sendProcess env step) (entryStep env step) [])),
       snd (snd (sendPhase env ?fc ?b (sendProcess env step) (entryStep env step) [])))"
    using t(1)
    by (cases "sendPhase env ?fc ?b (sendProcess env step) (entryStep env step) []")
       (simp add: executeStep_unfold)
  show "outcomeOf (executeStep env step) = Rejected (parseError env e0)"
    by (simp add: e obs_simps)
  show "statusOf (currentProcessType env step) (stepOf (executeStep env step)) = Some FAILED"
    using t(2) by (simp add: e obs_simps)
  show "errorOf (currentProcessType env step) (stepOf (executeStep env step))
           = Some (errorInfoOf (parseError env e0))"
    using t(3) by (simp add: e obs_simps)
  show "executionStatus (stepOf (executeStep env step)) = Some FAILED"
    using t(4) by (simp add: e obs_simps)
  show "traceOf (executeStep env step)
           = traceOf (sendTryRunSolana env step)
               @ [EvUpdateProcess (currentProcessType env step) FAILED, EvUpdateExecution FAILED]"
    using t(5) by (simp add: e sendTryRunSolana_def obs_simps)
qed

lemma reconcile_unprepared:
  assumes "unpreparedPayload env step"
  shows "fst (reconcile env step tr) = Inr ()"
    and "\<not> hasPayload (fst (snd (reconcile env step tr)))"
    and "filter isSend (snd (snd (reconcile env step tr))) = filter isSend tr"
  using assms
  by (auto simp: unpreparedPayload_def reconcile_def hasPayload_def split: option.splits sum.splits)

lemma reconcile_prepared':
  assumes "preparedPayload env step"
  shows "fst (reconcile env step tr) = Inr ()"
    and "hasPayload (fst (snd (reconcile env step tr)))"
    and "filter isSend (snd (snd (reconcile env step tr))) = filter isSend tr"
  using reconcile_prepared[OF assms, of tr] by (simp_all add: obs_simps)

lemma preparedPayload_frame:
  "preparedPayload env (snd (updateProcess step t s f)) = preparedPayload env step"
  "unpreparedPayload env (snd (updateProcess step t s f)) = unpreparedPayload env step"
  by (simp_all add: preparedPayload_def unpreparedPayload_def frame_updateProcess)

lemma newTransaction_unprepared:
  assumes "publicKey env \<noteq> None" "checkBalance env = None" "unpreparedPayload env step"
  shows "fst (newTransaction env fc proc step tr) = Throw unprepared"
    and "filter isSend (snd (snd (newTransaction env fc proc step tr))) = filter isSend tr"
proof -
  let ?s1 = "snd (updateProcess step (ptype proc) STARTED id)"
  have u: "unpreparedPayload env ?s1" using assms(3) by (simp add: preparedPayload_frame)
  note r = reconcile_unprepared[OF u, of "tr @ [EvUpdateProcess (ptype proc) STARTED, EvCheckBalance]"]
  show "fst (newTransaction env fc proc step tr) = Throw unprepared"
    using r by (simp add: newTransaction_checked[OF assms(1,2)] Let_def)
  show "filter isSend (snd (snd (newTransaction env fc proc step tr))) = filter isSend tr"
    using r by (simp add: newTransaction_checked[OF assms(1,2)] Let_def)
qed

lemma customizeAndSend_unprepared:
  assumes "updateTransactionRequestHook env = Some (Inr r)" "\<not> truthy (mergeData (payload step) r)"
  shows "customizeAndSend env fc proc step tr
           = (Throw unprepared, step, tr @ [EvUpdateTransactionRequestHook])"
  using assms by (simp add: customizeAndSend_def Let_def)

lemma newTransaction_hook_unprepared:
  assumes "allowUserInteraction env" "publicKey env \<noteq> None" "checkBalance env = None"
    and "preparedPayload env step"
    and "updateTransactionRequestHook env = Some (Inr r)" "r = Undefined \<or> r = Str []"
  shows "fst (newTransaction env fc proc step tr) = Throw unprepared"
    and "filter isSend (snd (snd (newTransaction env fc proc step tr))) = filter isSend tr"
proof -
  let ?s1 = "snd (updateProcess step (ptype proc) STARTED id)"
  have u: "preparedPayload env ?s1" using assms(4) by (simp add: preparedPayload_frame)
  note r = reconcile_prepared'[OF u, of "tr @ [EvUpdateProcess (ptype proc) STARTED, EvCheckBalance]"]
  have m: "\<And>d. \<not> truthy (mergeData d r)"
    using assms(6) by (auto simp: mergeData_def truthy_def)
  note c = customizeAndSend_unprepared[OF assms(5) m]
  show "fst (newTransaction env fc proc step tr) = Throw unprepared"
    using r assms(1) by (simp add: newTransaction_checked[OF assms(2,3)] Let_def c)
  show "filter isSend (snd (snd (newTransaction env fc proc step tr))) = filter isSend tr"
    using r assms(1) by (simp add: newTransaction_checked[OF assms(2,3)] Let_def c)
qed

lemma unprepared_solana:
  assumes "statusOf (currentProcessType env step) step \<noteq> Some DONE"
    and "\<not> truthy (txHashOf (currentProcessType env step) step)"
    and "getSolanaConnection env = None" "publicKey env \<noteq> None" "checkBalance env = None"
    and "unpreparedPayload env step
         \<or> (allowUserInteraction env \<and> preparedPayload env step
            \<and> (updateTransactionRequestHook env = Some (Inr Undefined)
               \<or> updateTransactionRequestHook env = Some (Inr (Str []))))"
  shows "outcomeOf (executeStep env step) = Rejected (parseError env unprepared)
     \<and> statusOf (currentProcessType env step) (stepOf (executeStep env step)) = Some FAILED
     \<and> errorOf (currentProcessType env step) (stepOf (executeStep env step))
          = Some (errorInfoOf (parseError env unprepared))
     \<and> executionStatus (stepOf (executeStep env step)) = Some FAILED
     \<and> filter isSend (traceOf (executeStep env step)) = []"
proof -
  let ?fc = "getChainById env (fromChainId (action step))"
  have nt: "\<not> truthy (txHash (sendProcess env step))" using assms(2) by (simp add: sendProcess_txHash)
  have n: "fst (newTransaction env ?fc (sendProcess env step) (entryStep env step) []) = Throw unprepared
     \<and> filter isSend (snd (snd (newTransaction env ?fc (sendProcess env step) (entryStep env step) []))) = []"
  proof -
    have pe: "unpreparedPayload env (entryStep env step) = unpreparedPayload env step"
         "preparedPayload env (entryStep env step) = preparedPayload env step"
      by (simp_all add: unpreparedPayload_def preparedPayload_def)
    from assms(6) show ?thesis
    proof (elim disjE conjE)
      assume "unpreparedPayload env step"
      then show ?thesis
        using newTransaction_unprepared[OF assms(4,5), of "entryStep env step" ?fc "sendProcess env step" "[]"] pe
        by simp
    next
      assume a: "allowUserInteraction env" "preparedPayload env step"
        "updateTransactionRequestHook env = Some (Inr Undefined)"
      show ?thesis
        using newTransaction_hook_unprepared[OF a(1) assms(4,5) _ a(3), of "entryStep env step" ?fc
                "sendProcess env step" "[]"] a(2) pe
        by simp
    next
      assume a: "allowUserInteraction env" "preparedPayload env step"
        "updateTransactionRequestHook env = Some (Inr (Str []))"
      show ?thesis
        using newTransaction_hook_unprepared[OF a(1) assms(4,5) _ a(3), of "entryStep env step" ?fc
                "sendProcess env step" "[]"] a(2) pe
        by simp
    qed
  qed
  have st: "outcomeOf (sendTryRunSolana env step) = Throw unprepared"
           "filter isSend (traceOf (sendTryRunSolana env step)) = []"
    using n nt assms(3) by (simp_all add: sendTryRunSolana_def sendTry_def split_def obs_simps)
  note f = executeStep_send_failure[OF assms(1) st(1)]
  show ?thesis using f st(2) by simp
qed

lemma unprepared_multichain:
  assumes "\<not> truthy (txHashOf crossProcess step)"
    and "fromTokenAddress (action step) = AddressZero \<or> checkAllowance env = None"
    and "balanceCheck env = None" "\<not> isl (personalizeStep env)"
    and "lifiGetStepTransaction env = Inr None"
  shows "outcomeOf (execute env step)
           = Rejected (parseWalletError env (ThrownString ''Unable to prepare Transaction''))
     \<and> statusOf crossProcess (stepOf (execute env step)) = Some FAILED
     \<and> errorMessageOf crossProcess (stepOf (execute env step))
          = exnMessage (parseWalletError env (ThrownString ''Unable to prepare Transaction''))
     \<and> executionStatus (stepOf (execute env step)) = Some FAILED
     \<and> filter isSend (traceOf (execute env step)) = []"
proof -
  have a1: "\<not> truthy (txHash (crossProcessAtEntry step))"
    using assms(1) by (simp add: crossProcessAtEntry_txHashOf)
  let ?u = "updateProcess (crossEntryStep step) crossProcess FAILED
              (\<lambda>p. p\<lparr>errorMessage := Some ''Unable to prepare Transaction''\<rparr>)"
  have ct: "\<And>fc tr. createTransaction env fc (crossEntryStep step) tr
      = (Throw (ThrownString ''Unable to prepare Transaction''), snd ?u,
         tr @ [EvCheckBalance, EvPersonalizeStep, EvGetStepTransaction,
               EvUpdateProcess crossProcess FAILED])"
    using assms
    by (cases "personalizeStep env")
       (simp_all add: createTransaction_def Let_def split_def fst_updateProcess interpolate_def)
  have ex: "findProcess crossProcess (processes (snd ?u)) \<noteq> None" "execution (snd ?u) \<noteq> None"
    by (simp_all add: updateProcess_keeps updateProcess_execution)
  then obtain q where q: "findProcess crossProcess (processes (snd ?u)) = Some q" by blast
  show ?thesis
    using assms a1 ct ex q
    by (auto simp: execute_unfold allowancePhase_eq crossPhase_def crossTry_def isReplaced_def Let_def
          split_def obs_simps statusOf_updateExecution statusOf_updateProcess_same
          executionStatus_updateExecution updateProcess_execution errorMessageOf_def
          processes_updateExecution processes_updateProcess findProcess_patch_same)
qed

text \<open>
  C5. As stated the claim fails: a customization hook whose result carries no payload
  (no \<open>data\<close> property) leaves the payload of the step in place, since the result is
  merged over the request, and the transaction is sent; and the multichain executor
  sends a transaction request that has no \<open>data\<close> (the counterexample below).
  Amended: whenever the payload is absent where the executor checks it, the executor
  fails the send phase before any send call of the signing agent, with the Process and
  the Execution \<open>FAILED\<close> and the classified error attached. In the Solana executor the
  checks are on \<open>step.transactionRequest.data\<close> after reconciliation and on the
  \<open>data\<close> of the request merged with the hook's result (absent when the hook returns
  \<open>data\<close> undefined or empty), and the error raised is \<open>TransactionUnprepared\<close>; in the
  multichain executor the check is on the whole \<open>transactionRequest\<close> returned by
  \<open>getStepTransaction\<close>, and the error raised is the message
  \<open>Unable to prepare Transaction\<close>.
\<close>

theorem unprepared_fails_before_send:
  "(statusOf (currentProcessType env step) step \<noteq> Some DONE
      \<and> \<not> truthy (txHashOf (currentProcessType env step) step)
      \<and> getSolanaConnection env = None \<and> publicKey env \<noteq> None \<and> checkBalance env = None
      \<and> (unpreparedPayload env step
          \<or> (allowUserInteraction env \<and> preparedPayload env step
             \<and> (updateTransactionRequestHook env = Some (Inr Undefined)
                \<or> updateTransactionRequestHook env = Some (Inr (Str [])))))
    \<longrightarrow> outcomeOf (executeStep env step) = Rejected (parseError env unprepared)
      \<and> exnCode unprepared = Some TransactionUnprepared
      \<and> statusOf (currentProcessType env step) (stepOf (executeStep env step)) = Some FAILED
      \<and> errorOf (currentProcessType env step) (stepOf (executeStep env step))
           = Some (errorInfoOf (parseError env unprepared))
      \<and> executionStatus (stepOf (executeStep env step)) = Some FAILED
      \<and> filter isSend (traceOf (executeStep env step)) = [])
   \<and> (\<not> truthy (txHashOf crossProcess mstep)
      \<and> (fromTokenAddress (action mstep) = AddressZero \<or> checkAllowance menv = None)
      \<and> balanceCheck menv = None \<and> \<not> isl (personalizeStep menv)
      \<and> lifiGetStepTransaction menv = Inr None
    \<longrightarrow> outcomeOf (execute menv mstep)
           = Rejected (parseWalletError menv (ThrownString ''Unable to prepare Transaction''))
      \<and> statusOf crossProcess (stepOf (execute menv mstep)) = Some FAILED
      \<and> errorMessageOf crossProcess (stepOf (execute menv mstep))
           = exnMessage (parseWalletError menv (ThrownString ''Unable to prepare Transaction''))
      \<and> executionStatus (stepOf (execute menv mstep)) = Some FAILED
      \<and> filter isSend (traceOf (execute menv mstep)) = [])"
  using unprepared_solana[of env step] unprepared_multichain[of mstep menv]
  by (simp add: unprepared_def TransactionError_def)

theorem unprepared_fails_before_send_witness:
  "unpreparedPayload solanaEnv unpreparedStep
   \<and> outcomeOf (executeStep solanaEnv unpreparedStep) = Rejected unprepared
   \<and> statusOf SWAP (stepOf (executeStep solanaEnv unpreparedStep)) = Some FAILED
   \<and> filter isSend (traceOf (executeStep solanaEnv unpreparedStep)) = []
   \<and> preparedPayload hookUndefinedEnv swapStep
   \<and> updateTransactionRequestHook hookUndefinedEnv = Some (Inr Undefined)
   \<and> outcomeOf (executeStep hookUndefinedEnv swapStep) = Rejected unprepared
   \<and> filter isSend (traceOf (executeStep hookUndefinedEnv swapStep)) = []
   \<and> lifiGetStepTransaction noRequestEnv = Inr None
   \<and> outcomeOf (execute noRequestEnv tokenStep)
        = Rejected (ThrownString ''Unable to prepare Transaction'')
   \<and> statusOf crossProcess (stepOf (execute noRequestEnv tokenStep)) = Some FAILED
   \<and> filter isSend (traceOf (execute noRequestEnv tokenStep)) = []"
  using unprepared_fails_before_send[of solanaEnv unpreparedStep tokenStep noRequestEnv]
        unprepared_fails_before_send[of hookUndefinedEnv swapStep tokenStep noRequestEnv]
  by (simp add: example_defs unpreparedStep_def hookUndefinedEnv_def noRequestEnv_def
        continuingMultichainEnv_def currentProcessType_def isBridgeExecution_def statusOf_def
        txHashOf_def processes_def truthy_def preparedPayload_def unpreparedPayload_def)

theorem unprepared_fails_before_send_counterexample:
  "updateTransactionRequestHook hookAbsentEnv = Some (Inr Absent)
   \<and> outcomeOf (executeStep hookAbsentEnv swapStep) = Resolved
   \<and> filter isSend (traceOf (executeStep hookAbsentEnv swapStep)) = [EvSendTransaction (Some ''AQID'')]
   \<and> lifiGetStepTransaction noDataEnv
        = Inr (Some \<lparr>data = None, txTo = Some ''0x1231'', txValue = Some ''1000000''\<rparr>)
   \<and> outcomeOf (execute noDataEnv tokenStep) = Resolved
   \<and> filter isSend (traceOf (execute noDataEnv tokenStep)) = [EvSendTransaction None]"
  by (simp add: run_defs hookAbsentEnv_def noDataEnv_def continuingMultichainEnv_def
        example_defs Let_def)

lemma executeStep_done:
  assumes "statusOf (currentProcessType env step) step = Some DONE"
  shows "executeStep env step =
     receivingPhase env (getChainById env (toChainId (action step))) (isBridgeExecution env step)
       (sendProcess env step) (entryStep env step) []"
  using assms by (simp add: executeStep_unfold sendPhase_def sendProcess_status)

lemma balance_performed_solana:
  assumes "filter isBalanceCheck (traceOf (executeStep env step)) \<noteq> []"
  shows "statusOf (currentProcessType env step) step \<noteq> Some DONE"
    and "\<not> truthy (txHashOf (currentProcessType env step) step)"
    and "getSolanaConnection env = None"
    and "publicKey env \<noteq> None"
proof -
  show nd: "statusOf (currentProcessType env step) step \<noteq> Some DONE"
    using assms by (auto simp: executeStep_done obs_simps receivingPhase_filters)
  show nt: "\<not> truthy (txHashOf (currentProcessType env step) step)"
    using assms resume_solana[of env step] by blast
  have nt': "\<not> truthy (txHash (sendProcess env step))" using nt by (simp add: sendProcess_txHash)
  show c: "getSolanaConnection env = None"
  proof (rule ccontr)
    assume "getSolanaConnection env \<noteq> None"
    then obtain e where e: "getSolanaConnection env = Some e" by blast
    have "outcomeOf (sendTryRunSolana env step) = Throw e" "traceOf (sendTryRunSolana env step) = []"
      using e by (simp_all add: sendTryRunSolana_def sendTry_def obs_simps)
    then show False using executeStep_send_failure(5)[OF nd, of e] assms by simp
  qed
  show "publicKey env \<noteq> None"
  proof
    assume p: "publicKey env = None"
    have "outcomeOf (sendTryRunSolana env step) = Throw (TypeError ''publicKey is null'')"
         "traceOf (sendTryRunSolana env step) = [EvUpdateProcess (currentProcessType env step) STARTED]"
      using p c nt'
      by (simp_all add: sendTryRunSolana_def sendTry_def newTransaction_def Let_def split_def obs_simps)
    then show False
      using executeStep_send_failure(5)[OF nd, of "TypeError ''publicKey is null''"] assms by simp
  qed
qed

lemma balance_fails_solana:
  assumes "filter isBalanceCheck (traceOf (executeStep env step)) \<noteq> []"
    and "checkBalance env = Some e"
  shows "outcomeOf (executeStep env step) = Rejected (parseError env e)
     \<and> statusOf (currentProcessType env step) (stepOf (executeStep env step)) = Some FAILED
     \<and> errorOf (currentProcessType env step) (stepOf (executeStep env step))
          = Some (errorInfoOf (parseError env e))
     \<and> executionStatus (stepOf (executeStep env step)) = Some FAILED
     \<and> traceOf (executeStep env step)
          = [EvUpdateProcess (currentProcessType env step) STARTED, EvCheckBalance,
             EvUpdateProcess (currentProcessType env step) FAILED, EvUpdateExecution FAILED]"
proof -
  note p = balance_performed_solana[OF assms(1)]
  have nt': "\<not> truthy (txHash (sendProcess env step))" using p(2) by (simp add: sendProcess_txHash)
  have "outcomeOf (sendTryRunSolana env step) = Throw e"
       "traceOf (sendTryRunSolana env step)
          = [EvUpdateProcess (currentProcessType env step) STARTED, EvCheckBalance]"
    using p(3,4) nt' assms(2)
    by (auto simp: sendTryRunSolana_def sendTry_def newTransaction_def Let_def split_def obs_simps)
  then show ?thesis
    using executeStep_send_failure[OF p(1), of e] by simp
qed

lemma balance_performed_multichain:
  assumes "filter isBalanceCheck (traceOf (execute env step)) \<noteq> []"
  shows "\<not> truthy (txHashOf crossProcess step)"
    and "fst (allowancePhase env (step\<lparr>execution := Some (initExecutionObject step)\<rparr>)) = None"
proof -
  show "\<not> truthy (txHashOf crossProcess step)"
    using assms resume_multichain[of step env] by blast
  show "fst (allowancePhase env (step\<lparr>execution := Some (initExecutionObject step)\<rparr>)) = None"
    using assms
    by (cases "allowancePhase env (step\<lparr>execution := Some (initExecutionObject step)\<rparr>)")
       (auto simp: execute_unfold allowancePhase_eq obs_simps split: option.splits if_splits)
qed

lemma balance_fails_multichain:
  assumes "filter isBalanceCheck (traceOf (execute env step)) \<noteq> []"
    and "balanceCheck env = Some e"
    and "\<not> isReplaced e"
  shows "outcomeOf (execute env step) = Rejected (parseWalletError env e)
     \<and> statusOf crossProcess (stepOf (execute env step)) = Some FAILED
     \<and> errorMessageOf crossProcess (stepOf (execute env step)) = exnMessage (parseWalletError env e)
     \<and> errorCodeOf crossProcess (stepOf (execute env step)) = exnCode (parseWalletError env e)
     \<and> executionStatus (stepOf (execute env step)) = Some FAILED
     \<and> traceOf (execute env step)
          = (if fromTokenAddress (action step) = AddressZero then [] else [EvCheckAllowance])
              @ [EvCheckBalance, EvUpdateProcess crossProcess FAILED, EvUpdateExecution FAILED]"
proof -
  note p = balance_performed_multichain[OF assms(1)]
  have a1: "\<not> truthy (txHash (crossProcessAtEntry step))"
    using p(1) by (simp add: crossProcessAtEntry_txHashOf)
  have ct: "\<And>fc tr. createTransaction env fc (crossEntryStep step) tr
      = (Throw e, crossEntryStep step, tr @ [EvCheckBalance])"
    using assms(2) by (simp add: createTransaction_def)
  obtain q where q: "findProcess crossProcess (processes (crossEntryStep step)) = Some q" by simp
  have tr0: "snd (allowancePhase env (step\<lparr>execution := Some (initExecutionObject step)\<rparr>))
       = (if fromTokenAddress (action step) = AddressZero then [] else [EvCheckAllowance])"
    using a1 by (simp add: allowancePhase_eq)
  show ?thesis
    using p(2) a1 ct assms(3) q tr0
    by (cases "allowancePhase env (step\<lparr>execution := Some (initExecutionObject step)\<rparr>)")
       (simp add: execute_unfold crossPhase_def crossTry_def Let_def
          split_def obs_simps statusOf_updateExecution statusOf_updateProcess_same
          executionStatus_updateExecution updateProcess_execution errorMessageOf_def errorCodeOf_def
          processes_updateExecution processes_updateProcess findProcess_patch_same)
qed

text \<open>
  C7. A step whose balance check is performed and fails has its send phase marked
  \<open>FAILED\<close> at once, with the classifier's rendering of the balance error attached,
  and the Execution marked \<open>FAILED\<close>; the invocation rejects with the classified error.
  The trace of the invocation shows the balance check once, directly followed by the two
  \<open>FAILED\<close> updates and nothing else: no send call of the signing agent and no second
  balance check. (In the multichain executor the \<open>catch\<close> first tests for a replaced
  transaction; a balance error is not one.)
\<close>

theorem balance_failure_fails_phase:
  "(filter isBalanceCheck (traceOf (executeStep env step)) \<noteq> [] \<and> checkBalance env = Some e
    \<longrightarrow> outcomeOf (executeStep env step) = Rejected (parseError env e)
      \<and> statusOf (currentProcessType env step) (stepOf (executeStep env step)) = Some FAILED
      \<and> errorOf (currentProcessType env step) (stepOf (executeStep env step))
           = Some (errorInfoOf (parseError env e))
      \<and> executionStatus (stepOf (executeStep env step)) = Some FAILED
      \<and> traceOf (executeStep env step)
           = [EvUpdateProcess (currentProcessType env step) STARTED, EvCheckBalance,
              EvUpdateProcess (currentProcessType env step) FAILED, EvUpdateExecution FAILED])
   \<and> (filter isBalanceCheck (traceOf (execute menv mstep)) \<noteq> [] \<and> balanceCheck menv = Some e'
      \<and> \<not> isReplaced e'
    \<longrightarrow> outcomeOf (execute menv mstep) = Rejected (parseWalletError menv e')
      \<and> statusOf crossProcess (stepOf (execute menv mstep)) = Some FAILED
      \<and> errorMessageOf crossProcess (stepOf (execute menv mstep))
           = exnMessage (parseWalletError menv e')
      \<and> errorCodeOf crossProcess (stepOf (execute menv mstep)) = exnCode (parseWalletError menv e')
      \<and> executionStatus (stepOf (execute menv mstep)) = Some FAILED
      \<and> traceOf (execute menv mstep)
           = (if fromTokenAddress (action mstep) = AddressZero then [] else [EvCheckAllowance])
               @ [EvCheckBalance, EvUpdateProcess crossProcess FAILED, EvUpdateExecution FAILED])"
  using balance_fails_solana[of env step e] balance_fails_multichain[of menv mstep e'] by blast

theorem balance_failure_fails_phase_witness:
  "filter isBalanceCheck (traceOf (executeStep brokeSolanaEnv swapStep)) = [EvCheckBalance]
   \<and> checkBalance brokeSolanaEnv = Some insufficientFunds
   \<and> outcomeOf (executeStep brokeSolanaEnv swapStep) = Rejected insufficientFunds
   \<and> statusOf SWAP (stepOf (executeStep brokeSolanaEnv swapStep)) = Some FAILED
   \<and> errorOf SWAP (stepOf (executeStep brokeSolanaEnv swapStep))
        = Some \<lparr>code = Some InsufficientFunds, message = Some ''Insufficient funds'',
                 htmlMessage = None\<rparr>
   \<and> filter isSend (traceOf (executeStep brokeSolanaEnv swapStep)) = []
   \<and> filter isBalanceCheck (traceOf (execute brokeMultichainEnv tokenStep)) = [EvCheckBalance]
   \<and> balanceCheck brokeMultichainEnv = Some insufficientFunds
   \<and> \<not> isReplaced insufficientFunds
   \<and> outcomeOf (execute brokeMultichainEnv tokenStep) = Rejected insufficientFunds
   \<and> statusOf crossProcess (stepOf (execute brokeMultichainEnv tokenStep)) = Some FAILED
   \<and> errorCodeOf crossProcess (stepOf (execute brokeMultichainEnv tokenStep))
        = Some InsufficientFunds
   \<and> filter isSend (traceOf (execute brokeMultichainEnv tokenStep)) = []"
proof -
  have a: "filter isBalanceCheck (traceOf (executeStep brokeSolanaEnv swapStep)) = [EvCheckBalance]"
    by (simp add: run_defs brokeSolanaEnv_def example_defs Let_def)
  have b: "filter isBalanceCheck (traceOf (execute brokeMultichainEnv tokenStep)) = [EvCheckBalance]"
    by (simp add: run_defs brokeMultichainEnv_def continuingMultichainEnv_def example_defs Let_def)
  have c: "checkBalance brokeSolanaEnv = Some insufficientFunds"
          "balanceCheck brokeMultichainEnv = Some insufficientFunds"
          "\<not> isReplaced insufficientFunds"
          "parseError brokeSolanaEnv = (\<lambda>e. e)" "parseWalletError brokeMultichainEnv = (\<lambda>e. e)"
          "currentProcessType brokeSolanaEnv swapStep = SWAP"
          "fromTokenAddress (action tokenStep) \<noteq> AddressZero"
    by (simp_all add: brokeSolanaEnv_def brokeMultichainEnv_def continuingMultichainEnv_def
          isReplaced_def currentProcessType_def isBridgeExecution_def example_defs)
  show ?thesis
    using balance_failure_fails_phase[of brokeSolanaEnv swapStep insufficientFunds
            brokeMultichainEnv tokenStep insufficientFunds] a b c
    by (simp add: insufficientFunds_def)
qed

text \<open>
  C6. The claim fails on the code. In the multichain executor the calls
  \<open>signer.getAddress()\<close> and \<open>multichain.parseReceipt\<close> (lines 142 to 147) are awaited
  outside every \<open>try\<close>: when the wallet rejects there, after the destination receipt
  has arrived, \<open>execute\<close> rejects with that error while the wait Process is still
  \<open>STARTED\<close> and the Execution still \<open>PENDING\<close>, and nothing is recorded after the
  wait. The guarded wait just before (lines 128 to 139) records the failure on both
  before it rethrows, as the claim says. In the Solana executor the \<open>catch\<close> of the
  receiving phase awaits \<open>getTransactionFailedMessage\<close> (line 233) before it records
  anything: when that call rejects, \<open>executeStep\<close> rejects with the error of that call
  and the Process and the Execution stay \<open>PENDING\<close>; when it returns, the same failure
  of the waiter is recorded as \<open>FAILED\<close> on both. The chain lookups of lines 43 and
  44 are awaited outside every \<open>try\<close> as well: a lookup that rejects is propagated
  with the Execution \<open>PENDING\<close> and no Process.
\<close>

theorem unrecorded_failure_after_receipt:
  "outcomeOf (execute disconnectedEnv tokenStep) = Rejected (Error ''wallet disconnected'')
   \<and> executionStatus (stepOf (execute disconnectedEnv tokenStep)) = Some PENDING
   \<and> statusOf waitForTxProcess (stepOf (execute disconnectedEnv tokenStep)) = Some STARTED
   \<and> statusOf crossProcess (stepOf (execute disconnectedEnv tokenStep)) = Some DONE
   \<and> lastTwo (traceOf (execute disconnectedEnv tokenStep))
        = [EvWaitForDestinationChainReceipt (Some ''0xaa''), EvGetAddress]
   \<and> outcomeOf (execute receiptTimeoutEnv tokenStep) = Rejected (Error ''receipt timeout'')
   \<and> executionStatus (stepOf (execute receiptTimeoutEnv tokenStep)) = Some FAILED
   \<and> statusOf waitForTxProcess (stepOf (execute receiptTimeoutEnv tokenStep)) = Some FAILED
   \<and> lastTwo (traceOf (execute receiptTimeoutEnv tokenStep))
        = [EvUpdateProcess waitForTxProcess FAILED, EvUpdateExecution FAILED]
   \<and> outcomeOf (executeStep explorerDownEnv swapStep) = Rejected (Error ''chain lookup failed'')
   \<and> executionStatus (stepOf (executeStep explorerDownEnv swapStep)) = Some PENDING
   \<and> statusOf SWAP (stepOf (executeStep explorerDownEnv swapStep)) = Some PENDING
   \<and> lastTwo (traceOf (executeStep explorerDownEnv swapStep))
        = [EvConfirmTransaction ''sig1'', EvWaitForReceivingTransaction ''sig1'' SWAP]
   \<and> outcomeOf (executeStep failingWaiterEnv swapStep) = Rejected (Error ''status request failed'')
   \<and> executionStatus (stepOf (executeStep failingWaiterEnv swapStep)) = Some FAILED
   \<and> statusOf SWAP (stepOf (executeStep failingWaiterEnv swapStep)) = Some FAILED
   \<and> outcomeOf (executeStepInvocation unknownChain solanaEnv bridgeStep)
        = Rejected (Error ''ChainId not found'')
   \<and> executionStatus (stepOf (executeStepInvocation unknownChain solanaEnv bridgeStep)) = Some PENDING
   \<and> processes (stepOf (executeStepInvocation unknownChain solanaEnv bridgeStep)) = []"
  by (simp add: run_defs executeStepInvocation_def unknownChain_def disconnectedEnv_def
        receiptTimeoutEnv_def explorerDownEnv_def failingWaiterEnv_def continuingMultichainEnv_def
        example_defs Let_def)

lemma updateProcess_snd:
  "snd (updateProcess step t s f) = step\<lparr>execution := execution (snd (updateProcess step t s f))\<rparr>"
  by (simp add: updateProcess_def split: option.splits)

lemma updateProcess_execution_cong:
  "execution a = execution b \<Longrightarrow>
     execution (snd (updateProcess a t s f)) = execution (snd (updateProcess b t s f))"
  by (simp add: updateProcess_def processes_def split: option.splits)

lemma reconcile_replaced:
  assumes "transactionRequest step = None" "getStepTransaction env = Inr u" "stepComparison env = Inr c"
  shows "reconcile env step tr
           = (Inr (), c\<lparr>execution := execution step\<rparr>, tr @ [EvGetStepTransaction, EvStepComparison])"
  using assms by (simp add: reconcile_def)

lemma replaced_at_gate:
  assumes "\<not> allowUserInteraction env"
    and "statusOf (currentProcessType env step) step \<noteq> Some DONE"
    and "\<not> truthy (txHashOf (currentProcessType env step) step)"
    and "getSolanaConnection env = None" "publicKey env \<noteq> None" "checkBalance env = None"
    and "transactionRequest step = None" "getStepTransaction env = Inr u" "stepComparison env = Inr c"
    and "hasPayload c"
  shows "outcomeOf (executeStep env step) = Resolved
     \<and> stepOf (executeStep env step) = c\<lparr>execution := execution (stepOf (executeStep env step))\<rparr>
     \<and> execution (stepOf (executeStep env step))
          = execution (snd (updateProcess
               (snd (updateProcess (entryStep env step) (currentProcessType env step) STARTED id))
               (currentProcessType env step) ACTION_REQUIRED id))"
proof -
  let ?t = "currentProcessType env step"
  let ?fc = "getChainById env (fromChainId (action step))"
  let ?s1 = "snd (updateProcess (entryStep env step) ?t STARTED id)"
  let ?s2 = "c\<lparr>execution := execution ?s1\<rparr>"
  have nd: "status (sendProcess env step) \<noteq> DONE" using assms(2) by (simp add: sendProcess_status)
  have nt: "\<not> truthy (txHash (sendProcess env step))" using assms(3) by (simp add: sendProcess_txHash)
  have tr1: "transactionRequest ?s1 = None" using assms(7) by (simp add: frame_updateProcess)
  have hp: "hasPayload ?s2" using assms(10) by (simp add: hasPayload_def)
  have n: "newTransaction env ?fc (sendProcess env step) (entryStep env step) []
      = (Return, snd (updateProcess ?s2 ?t ACTION_REQUIRED id),
         [EvUpdateProcess ?t STARTED, EvCheckBalance, EvGetStepTransaction, EvStepComparison,
          EvUpdateProcess ?t ACTION_REQUIRED])"
    using assms(1) hp
    by (simp add: newTransaction_checked[OF assms(5,6)] Let_def
          reconcile_replaced[OF tr1 assms(8,9)])
  have e: "executeStep env step
      = (Resolved, snd (updateProcess ?s2 ?t ACTION_REQUIRED id),
         [EvUpdateProcess ?t STARTED, EvCheckBalance, EvGetStepTransaction, EvStepComparison,
          EvUpdateProcess ?t ACTION_REQUIRED])"
    using nd nt assms(4) n by (simp add: executeStep_unfold sendPhase_def sendTry_def)
  have x: "execution (snd (updateProcess ?s2 ?t ACTION_REQUIRED id))
      = execution (snd (updateProcess ?s1 ?t ACTION_REQUIRED id))"
    by (rule updateProcess_execution_cong) simp
  have y: "snd (updateProcess ?s2 ?t ACTION_REQUIRED id)
      = c\<lparr>execution := execution (snd (updateProcess ?s2 ?t ACTION_REQUIRED id))\<rparr>"
    using updateProcess_snd[of ?s2 ?t ACTION_REQUIRED id] by simp
  show ?thesis
    using x y by (simp add: e)
qed

text \<open>
  C8 (Solana executor). Reconciliation never changes the execution record of the step:
  the step the executor holds after lines 72 to 85 has the execution field of the step
  it held before, whatever the reconciler returned; when the step is replaced, the
  replacement is the compared step with exactly that field overwritten. At the level of
  an invocation that stops at the gate after a replacement: the returned step is the
  compared step carrying the original step's execution record as the ledger advanced
  it, and the execution field of the compared step plays no part.
\<close>

theorem replacement_keeps_execution:
  "execution (stepOf (reconcile env step tr)) = execution step
   \<and> (transactionRequest step = None \<and> getStepTransaction env = Inr u \<and> stepComparison env = Inr c
      \<longrightarrow> stepOf (reconcile env step tr) = c\<lparr>execution := execution step\<rparr>)
   \<and> (\<not> allowUserInteraction env
      \<and> statusOf (currentProcessType env step) step \<noteq> Some DONE
      \<and> \<not> truthy (txHashOf (currentProcessType env step) step)
      \<and> getSolanaConnection env = None \<and> publicKey env \<noteq> None \<and> checkBalance env = None
      \<and> transactionRequest step = None \<and> getStepTransaction env = Inr u
      \<and> stepComparison env = Inr c \<and> hasPayload c
      \<longrightarrow> outcomeOf (executeStep env step) = Resolved
        \<and> stepOf (executeStep env step) = c\<lparr>execution := execution (stepOf (executeStep env step))\<rparr>
        \<and> execution (stepOf (executeStep env step))
             = execution (snd (updateProcess
                  (snd (updateProcess (entryStep env step) (currentProcessType env step) STARTED id))
                  (currentProcessType env step) ACTION_REQUIRED id)))"
  using replaced_at_gate[of env step u c] reconcile_replaced[of step env u c tr]
  by (auto simp: obs_simps reconcile_frame)

theorem replacement_keeps_execution_witness:
  "transactionRequest unquotedStep = None
   \<and> getStepTransaction requotingEnv = Inr requotedStep
   \<and> stepComparison requotingEnv = Inr requotedStep
   \<and> hasPayload requotedStep
   \<and> execution requotedStep = Some (emptyExecution\<lparr>estatus := DONE\<rparr>)
   \<and> stepOf (reconcile requotingEnv unquotedStep []) = requotedStep\<lparr>execution := None\<rparr>
   \<and> outcomeOf (executeStep requotingEnv unquotedStep) = Resolved
   \<and> estimate (stepOf (executeStep requotingEnv unquotedStep)) = estimate requotedStep
   \<and> execution (stepOf (executeStep requotingEnv unquotedStep))
        = Some (emptyExecution\<lparr>process := [newProcess SWAP ACTION_REQUIRED]\<rparr>)"
proof -
  have h: "\<not> allowUserInteraction requotingEnv"
      "statusOf (currentProcessType requotingEnv unquotedStep) unquotedStep \<noteq> Some DONE"
      "\<not> truthy (txHashOf (currentProcessType requotingEnv unquotedStep) unquotedStep)"
      "getSolanaConnection requotingEnv = None" "publicKey requotingEnv \<noteq> None"
      "checkBalance requotingEnv = None" "transactionRequest unquotedStep = None"
      "getStepTransaction requotingEnv = Inr requotedStep"
      "stepComparison requotingEnv = Inr requotedStep" "hasPayload requotedStep"
      "execution unquotedStep = None"
      "execution requotedStep = Some (emptyExecution\<lparr>estatus := DONE\<rparr>)"
    by (simp_all add: requotingEnv_def unquotedStep_def requotedStep_def example_defs statusOf_def
          txHashOf_def processes_def truthy_def hasPayload_def)
  have x: "execution (snd (updateProcess
               (snd (updateProcess (entryStep requotingEnv unquotedStep)
                       (currentProcessType requotingEnv unquotedStep) STARTED id))
               (currentProcessType requotingEnv unquotedStep) ACTION_REQUIRED id))
      = Some (emptyExecution\<lparr>process := [newProcess SWAP ACTION_REQUIRED]\<rparr>)"
    by (simp add: entryStep_def run_defs requotingEnv_def unquotedStep_def requotedStep_def
          example_defs)
  note T = replacement_keeps_execution[of requotingEnv unquotedStep "[]" requotedStep requotedStep]
  have r: "stepOf (reconcile requotingEnv unquotedStep []) = requotedStep\<lparr>execution := None\<rparr>"
    using T h(7,8,9,11) by simp
  have g0: "outcomeOf (executeStep requotingEnv unquotedStep) = Resolved
      \<and> stepOf (executeStep requotingEnv unquotedStep)
         = requotedStep\<lparr>execution := execution (stepOf (executeStep requotingEnv unquotedStep))\<rparr>
      \<and> execution (stepOf (executeStep requotingEnv unquotedStep))
             = execution (snd (updateProcess
                  (snd (updateProcess (entryStep requotingEnv unquotedStep)
                          (currentProcessType requotingEnv unquotedStep) STARTED id))
                  (currentProcessType requotingEnv unquotedStep) ACTION_REQUIRED id))"
    using T h(1-10) by blast
  have g: "outcomeOf (executeStep requotingEnv unquotedStep) = Resolved"
      "stepOf (executeStep requotingEnv unquotedStep)
         = requotedStep\<lparr>execution := execution (stepOf (executeStep requotingEnv unquotedStep))\<rparr>"
      "execution (stepOf (executeStep requotingEnv unquotedStep))
         = Some (emptyExecution\<lparr>process := [newProcess SWAP ACTION_REQUIRED]\<rparr>)"
    using g0 x by (blast, blast, metis)
  have "estimate (stepOf (executeStep requotingEnv unquotedStep))
      = estimate (requotedStep\<lparr>execution := execution (stepOf (executeStep requotingEnv unquotedStep))\<rparr>)"
    using g(2) by (rule arg_cong)
  then have es: "estimate (stepOf (executeStep requotingEnv unquotedStep)) = estimate requotedStep"
    by simp
  show ?thesis
    using r g(1,3) es h(7,8,9,10,12) by simp
qed

lemma entryStep_found:
  "statusOf (currentProcessType env step) step = Some DONE \<Longrightarrow>
     processes (entryStep env step) = processes step"
  by (auto simp: entryStep_def findOrCreateProcess_def processes_findOrInsert statusOf_def newProcess_def)

lemma done_send_phase:
  assumes "statusOf (currentProcessType env step) step = Some DONE"
  shows "filter isBalanceCheck (traceOf (executeStep env step)) = []
     \<and> filter isReconcile (traceOf (executeStep env step)) = []
     \<and> filter isSend (traceOf (executeStep env step)) = []
     \<and> filter isConfirm (traceOf (executeStep env step)) = []
     \<and> (isBridgeExecution env step \<and> t \<noteq> RECEIVING_CHAIN \<longrightarrow>
          findProcess t (processes (stepOf (executeStep env step))) = findProcess t (processes step))"
  using assms receivingPhase_bridge(2)[OF entryStep_execution, where t = t and env = env
          and tc = "getChainById env (toChainId (action step))" and p = "sendProcess env step"
          and tr = "[]", of env step]
  by (simp add: executeStep_done obs_simps receivingPhase_filters entryStep_found)

text \<open>
  C9. As stated the claim fails: the executor never reads the top-level status of the
  Execution. A step whose Execution is \<open>FAILED\<close> is taken up again by the next
  invocation, which rewrites its Processes (this is how a failed step is resumed), and a
  step whose Execution is \<open>DONE\<close> has its Process and Execution rewritten by the next
  wait for the receiving chain, to \<open>FAILED\<close> when that wait fails (the counterexample
  below). Amended: what later invocations respect is the send-phase Process: once it is
  \<open>DONE\<close>, an invocation of \<open>executeStep\<close> performs no balance check, no
  reconciliation, no broadcast and no confirmation wait, and for a cross-chain step it
  leaves every Process other than \<open>RECEIVING_CHAIN\<close> exactly as it was; the
  \<open>RECEIVING_CHAIN\<close> Process and the status and summary of the Execution are still
  written by the receiving phase.
\<close>

theorem done_phase_not_repeated:
  "statusOf (currentProcessType env step) step = Some DONE
   \<longrightarrow> filter isBalanceCheck (traceOf (executeStep env step)) = []
     \<and> filter isReconcile (traceOf (executeStep env step)) = []
     \<and> filter isSend (traceOf (executeStep env step)) = []
     \<and> filter isConfirm (traceOf (executeStep env step)) = []
     \<and> (isBridgeExecution env step \<and> t \<noteq> RECEIVING_CHAIN \<longrightarrow>
          findProcess t (processes (stepOf (executeStep env step))) = findProcess t (processes step))"
  using done_send_phase[of env step t] by blast

theorem done_phase_not_repeated_witness:
  "statusOf (currentProcessType solanaEnv doneBridgeStep) doneBridgeStep = Some DONE
   \<and> isBridgeExecution solanaEnv doneBridgeStep
   \<and> filter isSend (traceOf (executeStep solanaEnv doneBridgeStep)) = []
   \<and> filter isConfirm (traceOf (executeStep solanaEnv doneBridgeStep)) = []
   \<and> findProcess CROSS_CHAIN (processes (stepOf (executeStep solanaEnv doneBridgeStep)))
        = Some ((newProcess CROSS_CHAIN DONE)\<lparr>txHash := Some ''sig1'',
             txLink := Some ''https://explorer.example/tx/sig1''\<rparr>)"
proof -
  have h: "statusOf (currentProcessType solanaEnv doneBridgeStep) doneBridgeStep = Some DONE"
      "isBridgeExecution solanaEnv doneBridgeStep"
      "findProcess CROSS_CHAIN (processes doneBridgeStep)
        = Some ((newProcess CROSS_CHAIN DONE)\<lparr>txHash := Some ''sig1'',
             txLink := Some ''https://explorer.example/tx/sig1''\<rparr>)"
    by (simp_all add: doneBridgeStep_def example_defs currentProcessType_def isBridgeExecution_def
          statusOf_def processes_def emptyExecution_def newProcess_def)
  show ?thesis
    using done_phase_not_repeated[of solanaEnv doneBridgeStep CROSS_CHAIN] h by simp
qed

theorem done_phase_not_repeated_counterexample:
  "executionStatus failedSwapStep = Some FAILED
   \<and> statusOf SWAP failedSwapStep = Some FAILED
   \<and> outcomeOf (executeStep haltingSolanaEnv failedSwapStep) = Resolved
   \<and> statusOf SWAP (stepOf (executeStep haltingSolanaEnv failedSwapStep)) = Some ACTION_REQUIRED
   \<and> executionStatus doneSwapStep = Some DONE
   \<and> statusOf SWAP doneSwapStep = Some DONE
   \<and> outcomeOf (executeStep failingWaiterEnv doneSwapStep) = Rejected (Error ''status request failed'')
   \<and> statusOf SWAP (stepOf (executeStep failingWaiterEnv doneSwapStep)) = Some FAILED
   \<and> executionStatus (stepOf (executeStep failingWaiterEnv doneSwapStep)) = Some FAILED"
  by (simp add: run_defs failedSwapStep_def doneSwapStep_def haltingSolanaEnv_def failingWaiterEnv_def
        example_defs Let_def)

end
